theory Spec2Isabelle
  imports
    Complex_Main
    "HOL-Library.Product_Lexorder"
    "HOL-Library.Char_ord"
    "HOL-Library.List_Lexorder"
    "HOL-Library.AList"
    "HOL-Library.Sublist"
    "HOL-Library.Multiset"
begin

section \<open>Python values and dictionaries\<close>

text \<open>
  The poller of \<^verbatim>\<open>url_poller.py\<close> keeps each check result in a Python dictionary with
  string keys. The values it stores are \<^verbatim>\<open>None\<close>, integers, floats and strings.
  A string is held as the list of its UTF-8 bytes; byte-wise lexicographic order on UTF-8
  coincides with Python's code point order on \<^verbatim>\<open>str\<close>.

  A float is a binary64 value: a finite one is the rational number it denotes, and there
  are the two infinities. Negative zero is not told from zero (the two are equal in
  Python, and both are false). No operation of the program produces a NaN, which is not a
  value of this model.
\<close>

datatype pyfloat = Fin rat | PosInf | NegInf

datatype py_val = PNone | PInt int | PFloat pyfloat | PStr string

text \<open>A dictionary keeps its keys in insertion order: an association list.\<close>

type_synonym dict = "(string \<times> py_val) list"

datatype py_error = KeyError | TypeError | ValueError

text \<open>\<^verbatim>\<open>d[k] = v\<close>: an existing key keeps its place, a new key goes last.\<close>

definition setitem :: "('k \<times> 'v) list \<Rightarrow> 'k \<Rightarrow> 'v \<Rightarrow> ('k \<times> 'v) list" where
  "setitem d k v = AList.update k v d"

text \<open>\<^verbatim>\<open>d[k]\<close> raises \<^verbatim>\<open>KeyError\<close> on a missing key.\<close>

definition getitem :: "dict \<Rightarrow> string \<Rightarrow> py_error + py_val" where
  "getitem d k = (case map_of d k of None \<Rightarrow> Inl KeyError | Some v \<Rightarrow> Inr v)"

text \<open>Truth value of an object in an \<^verbatim>\<open>if\<close>.\<close>

fun truthy :: "py_val \<Rightarrow> bool" where
  "truthy PNone = False"
| "truthy (PInt i) = (i \<noteq> 0)"
| "truthy (PFloat x) = (x \<noteq> Fin 0)"
| "truthy (PStr s) = (s \<noteq> [])"

section \<open>Rendering integers\<close>

definition digit_char :: "nat \<Rightarrow> char" where
  "digit_char n = ''0123456789'' ! (n mod 10)"

fun str_nat :: "nat \<Rightarrow> string" where
  "str_nat n = (if n < 10 then [digit_char n] else str_nat (n div 10) @ [digit_char n])"

declare str_nat.simps [simp del]

text \<open>\<^verbatim>\<open>str(i)\<close> for a Python integer.\<close>

definition str_int :: "int \<Rightarrow> string" where
  "str_int i = (if i < 0 then ''-'' @ str_nat (nat (- i)) else str_nat (nat i))"

section \<open>Floating-point arithmetic\<close>

text \<open>The nearest integer, a tie going to the even neighbour.\<close>

definition round_half_even :: "rat \<Rightarrow> int" where
  "round_half_even y =
     (let f = \<lfloor>y\<rfloor>; d = y - of_int f
      in if d < 1 / 2 then f
         else if 1 / 2 < d then f + 1
         else if even f then f else f + 1)"

text \<open>\<open>ilog2 n\<close> is the position of the leading bit of \<open>n\<close>.\<close>

function ilog2 :: "int \<Rightarrow> int" where
  "ilog2 n = (if n < 2 then 0 else 1 + ilog2 (n div 2))"
  by pat_completeness auto
termination
  by (relation "measure nat") auto

declare ilog2.simps [simp del]

definition pow2 :: "int \<Rightarrow> rat" where
  "pow2 e = (if 0 \<le> e then 2 ^ nat e else 1 / 2 ^ nat (- e))"

text \<open>
  The binary exponent of a positive rational \<open>x\<close>: the \<open>e\<close> with
  \<open>2\<^sup>e \<le> x < 2\<^sup>e\<^sup>+\<^sup>1\<close>. It is the difference of the leading bit positions of numerator
  and denominator, or one less.
\<close>

definition flog2 :: "rat \<Rightarrow> int" where
  "flog2 x =
     (let (p, q) = quotient_of x;
          d = ilog2 p - ilog2 q
      in if pow2 d \<le> x then d else d - 1)"

text \<open>
  Rounding a real result to binary64, the default rounding of IEEE 754 (to nearest, ties
  to even): the significand has 53 bits, so a number of binary exponent \<open>e\<close> is rounded to
  a multiple of \<open>2\<^sup>e\<^sup>-\<^sup>5\<^sup>2\<close>, and never to less than a multiple of \<open>2\<^sup>-\<^sup>1\<^sup>0\<^sup>7\<^sup>4\<close>, the
  spacing of the subnormal numbers; a result of magnitude \<open>2\<^sup>1\<^sup>0\<^sup>2\<^sup>4\<close> or more is an infinity.
\<close>

definition rnd64 :: "rat \<Rightarrow> pyfloat" where
  "rnd64 x =
     (if x = 0 then Fin 0
      else
        let e = flog2 \<bar>x\<bar>;
            q = max (e - 52) (- 1074);
            y = of_int (round_half_even (x / pow2 q)) * pow2 q
        in if 2 ^ 1024 \<le> y then PosInf
           else if y \<le> - (2 ^ 1024) then NegInf
           else Fin y)"

text \<open>\<^verbatim>\<open>a - b\<close> on two finite floats.\<close>

definition fsub :: "rat \<Rightarrow> rat \<Rightarrow> pyfloat" where
  "fsub a b = rnd64 (a - b)"

text \<open>\<^verbatim>\<open>x * 1000\<close> on a float: the integer becomes the float 1000.0.\<close>

fun fmul_1000 :: "pyfloat \<Rightarrow> pyfloat" where
  "fmul_1000 (Fin a) = rnd64 (a * 1000)"
| "fmul_1000 PosInf = PosInf"
| "fmul_1000 NegInf = NegInf"

text \<open>
  \<^verbatim>\<open>round(x, 2)\<close> on a float: the exact value of \<open>x\<close> is rounded to the nearest decimal
  with two digits after the point, a tie going to the even last digit, and the result is
  the float nearest to that decimal. An infinity rounds to itself. (A finite float of
  magnitude \<open>2\<^sup>5\<^sup>2\<close> or more is an integer and rounds to itself, so the rounding of a float
  does not overflow.)
\<close>

fun py_round2 :: "pyfloat \<Rightarrow> pyfloat" where
  "py_round2 (Fin x) = rnd64 (of_int (round_half_even (x * 100)) / 100)"
| "py_round2 PosInf = PosInf"
| "py_round2 NegInf = NegInf"

text \<open>\<^verbatim>\<open>x >= 0\<close> on a float.\<close>

fun float_nonneg :: "pyfloat \<Rightarrow> bool" where
  "float_nonneg (Fin x) = (0 \<le> x)"
| "float_nonneg PosInf = True"
| "float_nonneg NegInf = False"

section \<open>Dates\<close>

text \<open>
  A \<^verbatim>\<open>datetime\<close> as returned by \<^verbatim>\<open>datetime.now()\<close>: naive, without time zone.
\<close>

record datetime =
  year :: nat
  month :: nat
  day :: nat
  hour :: nat
  minute :: nat
  second :: nat
  microsecond :: nat

text \<open>The ranges that every \<^verbatim>\<open>datetime\<close> object satisfies.\<close>

definition valid_datetime :: "datetime \<Rightarrow> bool" where
  "valid_datetime t \<longleftrightarrow>
     1 \<le> year t \<and> year t \<le> 9999 \<and> 1 \<le> month t \<and> month t \<le> 12 \<and>
     1 \<le> day t \<and> day t \<le> 31 \<and> hour t < 24 \<and> minute t < 60 \<and> second t < 60 \<and>
     microsecond t < 1000000"

definition pad2 :: "nat \<Rightarrow> string" where
  "pad2 n = [digit_char (n div 10), digit_char n]"

definition pad4 :: "nat \<Rightarrow> string" where
  "pad4 n = [digit_char (n div 1000), digit_char (n div 100), digit_char (n div 10), digit_char n]"

definition pad6 :: "nat \<Rightarrow> string" where
  "pad6 n = [digit_char (n div 100000), digit_char (n div 10000), digit_char (n div 1000),
             digit_char (n div 100), digit_char (n div 10), digit_char n]"

text \<open>
  \<^verbatim>\<open>datetime.isoformat()\<close>: \<^verbatim>\<open>YYYY-MM-DDTHH:MM:SS.ffffff\<close>, the fraction left out
  when the microsecond is 0.
\<close>

definition isoformat :: "datetime \<Rightarrow> string" where
  "isoformat t =
     pad4 (year t) @ ''-'' @ pad2 (month t) @ ''-'' @ pad2 (day t) @ ''T'' @
     pad2 (hour t) @ '':'' @ pad2 (minute t) @ '':'' @ pad2 (second t) @
     (if microsecond t = 0 then [] else ''.'' @ pad6 (microsecond t))"

section \<open>Checking one URL\<close>

text \<open>
  The exceptions that \<^verbatim>\<open>session.get\<close> can raise, by their place in the class hierarchy of
  \<^verbatim>\<open>requests\<close>: \<^verbatim>\<open>ConnectTimeout\<close> derives from both \<^verbatim>\<open>ConnectionError\<close> and
  \<^verbatim>\<open>Timeout\<close>, \<^verbatim>\<open>ReadTimeout\<close> from \<^verbatim>\<open>Timeout\<close>; all three and every other exception of
  the library derive from \<^verbatim>\<open>RequestException\<close>. \<open>OtherException\<close> stands for any class
  under \<^verbatim>\<open>Exception\<close> that is not a \<^verbatim>\<open>RequestException\<close>.
\<close>

datatype exc_class =
  ConnectTimeout | ReadTimeout | ConnectionError | OtherRequestException | OtherException

text \<open>An exception object: its class and the text \<^verbatim>\<open>str(e)\<close>.\<close>

datatype py_exception = Exc exc_class string

fun str_exc :: "py_exception \<Rightarrow> string" where
  "str_exc (Exc c s) = s"

fun isinstance_Timeout :: "py_exception \<Rightarrow> bool" where
  "isinstance_Timeout (Exc c s) = (c = ConnectTimeout \<or> c = ReadTimeout)"

fun isinstance_ConnectionError :: "py_exception \<Rightarrow> bool" where
  "isinstance_ConnectionError (Exc c s) = (c = ConnectTimeout \<or> c = ConnectionError)"

fun isinstance_RequestException :: "py_exception \<Rightarrow> bool" where
  "isinstance_RequestException (Exc c s) = (c \<noteq> OtherException)"

text \<open>What \<^verbatim>\<open>session.get\<close> does: it returns a response with a status code, or raises.\<close>

datatype get_outcome = Response int | Raises py_exception

text \<open>
  What one call of \<^verbatim>\<open>check_url\<close> observes of the outside world: the clock when the result
  dictionary is created, the two readings of \<^verbatim>\<open>time.time()\<close> (seconds, finite floats)
  around the request, and the outcome of the request.
\<close>

record check_obs =
  now :: datetime
  start_time :: rat
  get_result :: get_outcome
  end_time :: rat

record poller =
  timeout :: int
  max_workers :: int

definition check_url :: "poller \<Rightarrow> check_obs \<Rightarrow> string \<Rightarrow> string \<Rightarrow> dict" where
  "check_url self ob name url =
     (let result =
            [(''name'', PStr name),
             (''url'', PStr url),
             (''status'', PStr ''unknown''),
             (''status_code'', PNone),
             (''response_time'', PNone),
             (''error'', PNone),
             (''timestamp'', PStr (isoformat (now ob)))]
      in case get_result ob of
           Response status_code \<Rightarrow>
             (let result = setitem result ''status_code'' (PInt status_code);
                  result = setitem result ''response_time''
                             (PFloat (py_round2 (fmul_1000 (fsub (end_time ob) (start_time ob)))))
              in if status_code = 200 then setitem result ''status'' (PStr ''up'')
                 else if 300 \<le> status_code \<and> status_code < 400
                   then setitem result ''status'' (PStr ''redirect'')
                 else if 400 \<le> status_code \<and> status_code < 500
                   then setitem result ''status'' (PStr ''client_error'')
                 else if 500 \<le> status_code \<and> status_code < 600
                   then setitem result ''status'' (PStr ''server_error'')
                 else setitem result ''status'' (PStr ''unknown''))
         | Raises e \<Rightarrow>
             if isinstance_Timeout e then
               (let result = setitem result ''status'' (PStr ''timeout'')
                in setitem result ''error''
                     (PStr (''Request timed out after '' @ str_int (timeout self) @ '' seconds'')))
             else if isinstance_ConnectionError e then
               (let result = setitem result ''status'' (PStr ''connection_error'')
                in setitem result ''error'' (PStr ''Failed to connect to the server''))
             else if isinstance_RequestException e then
               (let result = setitem result ''status'' (PStr ''error'')
                in setitem result ''error'' (PStr (str_exc e)))
             else
               (let result = setitem result ''status'' (PStr ''error'')
                in setitem result ''error'' (PStr (''Unexpected error: '' @ str_exc e))))"

section \<open>Polling all URLs\<close>

text \<open>
  What opening and parsing the input file gives: the parsed value, or one of the two
  exceptions that \<^verbatim>\<open>load_urls_from_file\<close> handles. The parsed value is taken to be of
  the shape the program iterates over, a list of objects with string values; other JSON
  values are outside this model.
\<close>

datatype load_result =
  Loaded "(string \<times> string) list list" | FileNotFoundError | JSONDecodeError

text \<open>
  What a run observes of the outside world. Per endpoint (name and URL): what its check
  observes; whether its future raises instead of returning the result of
  \<^verbatim>\<open>check_url\<close> (the text of the exception, if so); the rank in which
  \<^verbatim>\<open>as_completed\<close> yields its future (any order of completion is some ranking; equal
  ranks keep the order of submission); and the clock when a substitute result is built.
  Then the clock readings of the report header and of the name of the output file, the
  command line, and the files that can be read.
\<close>

record world =
  observe :: "string \<Rightarrow> string \<Rightarrow> check_obs"
  future_error :: "string \<Rightarrow> string \<Rightarrow> string option"
  completion_rank :: "string \<Rightarrow> string \<Rightarrow> nat"
  collect_now :: "string \<Rightarrow> string \<Rightarrow> datetime"
  report_now :: datetime
  save_now :: datetime
  argv :: "string list"
  read_file :: "string \<Rightarrow> load_result"

text \<open>What \<^verbatim>\<open>future.result()\<close> does: it returns the result of the call or raises.\<close>

datatype future = Returned dict | Raised string

definition submit :: "poller \<Rightarrow> world \<Rightarrow> string \<Rightarrow> string \<Rightarrow> future" where
  "submit self w name url =
     (case future_error w name url of
        None \<Rightarrow> Returned (check_url self (observe w name url) name url)
      | Some e \<Rightarrow> Raised e)"

definition as_completed ::
  "world \<Rightarrow> (future \<times> string \<times> string) list \<Rightarrow> (future \<times> string \<times> string) list" where
  "as_completed w future_to_url =
     sort_key (\<lambda>(fut, name, url). completion_rank w name url) future_to_url"

text \<open>
  The body of the collecting loop: the result of the future or, when the future raises,
  the substitute result to append.
\<close>

fun collect_result :: "world \<Rightarrow> future \<times> string \<times> string \<Rightarrow> dict" where
  "collect_result w (Returned result, name, url) = result"
| "collect_result w (Raised e, name, url) =
     [(''name'', PStr name),
      (''url'', PStr url),
      (''status'', PStr ''error''),
      (''status_code'', PNone),
      (''response_time'', PNone),
      (''error'', PStr (''Future execution error: '' @ e)),
      (''timestamp'', PStr (isoformat (collect_now w name url)))]"

text \<open>The loop itself, \<open>results\<close> being the list built so far.\<close>

fun collect :: "world \<Rightarrow> (future \<times> string \<times> string) list \<Rightarrow> dict list \<Rightarrow> dict list" where
  "collect w [] results = results"
| "collect w (fut # futures) results = collect w futures (results @ [collect_result w fut])"

text \<open>
  \<^verbatim>\<open>sorted(results, key=lambda x: x['name'])\<close>. The key function raises \<^verbatim>\<open>KeyError\<close>
  on a dictionary without the key. Two keys are compared only when the list has at least
  two elements; strings compare with strings and numbers with numbers, any other pair
  raises \<^verbatim>\<open>TypeError\<close>. The sort is stable. The key of a number is a pair, ordered
  lexicographically, that puts the infinities below and above every finite number.
\<close>

fun is_str :: "py_val \<Rightarrow> bool" where
  "is_str (PStr s) = True"
| "is_str v = False"

fun is_num :: "py_val \<Rightarrow> bool" where
  "is_num (PInt i) = True"
| "is_num (PFloat x) = True"
| "is_num v = False"

fun str_of :: "py_val \<Rightarrow> string" where
  "str_of (PStr s) = s"
| "str_of v = []"

fun num_of :: "py_val \<Rightarrow> int \<times> rat" where
  "num_of (PInt i) = (0, of_int i)"
| "num_of (PFloat (Fin x)) = (0, x)"
| "num_of (PFloat PosInf) = (1, 0)"
| "num_of (PFloat NegInf) = (- 1, 0)"
| "num_of v = (0, 0)"

definition name_key :: "dict \<Rightarrow> py_val" where
  "name_key x = (case map_of x ''name'' of Some v \<Rightarrow> v | None \<Rightarrow> PNone)"

definition sorted_by_name :: "dict list \<Rightarrow> py_error + dict list" where
  "sorted_by_name results =
     (if list_ex (\<lambda>x. map_of x ''name'' = None) results then Inl KeyError
      else if length results \<le> 1 then Inr results
      else if list_all (\<lambda>x. is_str (name_key x)) results
        then Inr (sort_key (\<lambda>x. str_of (name_key x)) results)
      else if list_all (\<lambda>x. is_num (name_key x)) results
        then Inr (sort_key (\<lambda>x. num_of (name_key x)) results)
      else Inl TypeError)"

text \<open>
  \<^verbatim>\<open>urls\<close> is the dictionary from names to URLs, in insertion order.
  \<^verbatim>\<open>ThreadPoolExecutor\<close> raises \<^verbatim>\<open>ValueError\<close> unless \<^verbatim>\<open>max_workers\<close> is positive.
\<close>

definition poll_urls :: "poller \<Rightarrow> world \<Rightarrow> (string \<times> string) list \<Rightarrow> py_error + dict list" where
  "poll_urls self w urls =
     (if max_workers self \<le> 0 then Inl ValueError
      else
        let future_to_url = map (\<lambda>(name, url). (submit self w name url, name, url)) urls;
            results = collect w (as_completed w future_to_url) []
        in sorted_by_name results)"

section \<open>The JSON snapshot\<close>

datatype json =
  JNull | JInt int | JFloat pyfloat | JString string | JObject "(string \<times> json) list" | JArray "json list"

fun json_of_val :: "py_val \<Rightarrow> json" where
  "json_of_val PNone = JNull"
| "json_of_val (PInt i) = JInt i"
| "json_of_val (PFloat x) = JFloat x"
| "json_of_val (PStr s) = JString s"

definition json_of_dict :: "dict \<Rightarrow> json" where
  "json_of_dict d = JObject (map (\<lambda>(k, v). (k, json_of_val v)) d)"

text \<open>The value that \<^verbatim>\<open>json.dump(results, f, indent=2)\<close> writes.\<close>

definition json_dump :: "dict list \<Rightarrow> json" where
  "json_dump results = JArray (map json_of_dict results)"

section \<open>Printing the report\<close>

text \<open>
  The symbols are the byte sequences of the string literals in the source file.
\<close>

definition status_symbols :: "(string \<times> string) list" where
  "status_symbols =
     [(''up'', [CHR 0xE2, CHR 0x80, CHR 0x9A, CHR 0xC3, CHR 0xBA, CHR 0xC3, CHR 0x96]),
      (''down'', [CHR 0xE2, CHR 0x80, CHR 0x9A, CHR 0xC3, CHR 0xB9, CHR 0xC3, CHR 0xA5]),
      (''timeout'',
        [CHR 0xE2, CHR 0x80, CHR 0x9A, CHR 0xC3, CHR 0xA8, CHR 0xE2, CHR 0x88, CHR 0x9E]),
      (''connection_error'',
        [CHR 0xEF, CHR 0xA3, CHR 0xBF, CHR 0xC3, CHR 0xBC, CHR 0xC3, CHR 0xAE, CHR 0xC3,
        CHR 0xA5]),
      (''redirect'',
        [CHR 0xE2, CHR 0x80, CHR 0x9A, CHR 0xC3, CHR 0x9C, CHR 0xC3, CHR 0xB3, CHR 0xC3,
        CHR 0x94, CHR 0xE2, CHR 0x88, CHR 0x8F, CHR 0xC3, CHR 0xA8]),
      (''client_error'',
        ''4'' @ [CHR 0xC3, CHR 0x94, CHR 0xE2, CHR 0x88, CHR 0x8F, CHR 0xC3, CHR 0xA8,
        CHR 0xE2, CHR 0x80, CHR 0x9A, CHR 0xC3, CHR 0x89, CHR 0xC2, CHR 0xA3]),
      (''server_error'',
        ''5'' @ [CHR 0xC3, CHR 0x94, CHR 0xE2, CHR 0x88, CHR 0x8F, CHR 0xC3, CHR 0xA8,
        CHR 0xE2, CHR 0x80, CHR 0x9A, CHR 0xC3, CHR 0x89, CHR 0xC2, CHR 0xA3]),
      (''error'', [CHR 0xE2, CHR 0x80, CHR 0x9A, CHR 0xC3, CHR 0xB9, CHR 0xC3, CHR 0xA5]),
      (''unknown'', [CHR 0xE2, CHR 0x80, CHR 0x9A, CHR 0xC3, CHR 0xB9, CHR 0xC3, CHR 0xAC])]"

text \<open>\<^verbatim>\<open>status_symbols.get(status, default)\<close>: only a string can be a key of the table.\<close>

definition symbol_of :: "py_val \<Rightarrow> string" where
  "symbol_of status =
     (case status of
        PStr s \<Rightarrow>
          (case map_of status_symbols s of
             Some symbol \<Rightarrow> symbol
           | None \<Rightarrow> [CHR 0xE2, CHR 0x80, CHR 0x9A, CHR 0xC3, CHR 0xB9, CHR 0xC3, CHR 0xAC])
      | _ \<Rightarrow> [CHR 0xE2, CHR 0x80, CHR 0x9A, CHR 0xC3, CHR 0xB9, CHR 0xC3, CHR 0xAC])"

text \<open>
  The length of a \<^verbatim>\<open>str\<close> in code points: the bytes of its UTF-8 form that are not
  continuation bytes.
\<close>

definition py_len :: "string \<Rightarrow> nat" where
  "py_len s = length (filter (\<lambda>c. \<not> (128 \<le> (of_char c :: nat) \<and> (of_char c :: nat) < 192)) s)"

definition ljust :: "nat \<Rightarrow> string \<Rightarrow> string" where
  "ljust n s = s @ replicate (n - py_len s) (CHR '' '')"

text \<open>
  \<^verbatim>\<open>str(x)\<close> for a float, as far as the poller needs it: for the float nearest to a
  multiple of one hundredth, of magnitude below \<open>10\<^sup>1\<^sup>5\<close>, the shortest text that reads
  back as the float is the decimal expansion of that multiple, with one or two digits
  after the point. Other finite values are rendered the same way from their nearest
  hundredth.
\<close>

fun float_str :: "pyfloat \<Rightarrow> string" where
  "float_str (Fin x) =
     (let h = nat (round_half_even (\<bar>x\<bar> * 100))
      in (if x < 0 then ''-'' else []) @ str_nat (h div 100) @ ''.'' @
         [digit_char (h div 10)] @ (if h mod 10 = 0 then [] else [digit_char h]))"
| "float_str PosInf = ''inf''"
| "float_str NegInf = ''-inf''"

text \<open>\<^verbatim>\<open>str(v)\<close>, which is what a replacement field without format does.\<close>

fun py_str :: "py_val \<Rightarrow> string" where
  "py_str PNone = ''None''"
| "py_str (PInt i) = str_int i"
| "py_str (PFloat x) = float_str x"
| "py_str (PStr s) = s"

text \<open>
  A replacement field \<^verbatim>\<open>{v:<n}\<close>: \<^verbatim>\<open>None\<close> accepts no format and raises
  \<^verbatim>\<open>TypeError\<close>; strings and numbers are padded on the right to \<open>n\<close> characters.
\<close>

fun format_left :: "nat \<Rightarrow> py_val \<Rightarrow> py_error + string" where
  "format_left n PNone = Inl TypeError"
| "format_left n v = Inr (ljust n (py_str v))"

text \<open>
  \<^verbatim>\<open>strftime('%Y-%m-%d %H:%M:%S')\<close> and \<^verbatim>\<open>strftime('%Y%m%d_%H%M%S')\<close>, for the years
  from 1000 on (some C libraries do not pad an earlier year to four digits).
\<close>

definition strftime_report :: "datetime \<Rightarrow> string" where
  "strftime_report t =
     pad4 (year t) @ ''-'' @ pad2 (month t) @ ''-'' @ pad2 (day t) @ '' '' @
     pad2 (hour t) @ '':'' @ pad2 (minute t) @ '':'' @ pad2 (second t)"

definition strftime_file :: "datetime \<Rightarrow> string" where
  "strftime_file t =
     pad4 (year t) @ pad2 (month t) @ pad2 (day t) @ ''_'' @
     pad2 (hour t) @ pad2 (minute t) @ pad2 (second t)"

text \<open>
  Printing: the texts given to \<^verbatim>\<open>print\<close>, one per call and in order, and the exception
  that ended the printing, if one did.
\<close>

type_synonym printing = "string list \<times> py_error option"

text \<open>Two steps in sequence: the second runs unless the first raised.\<close>

definition then_print :: "printing \<Rightarrow> printing \<Rightarrow> printing" where
  "then_print a b = (case snd a of Some e \<Rightarrow> a | None \<Rightarrow> (fst a @ fst b, snd b))"

text \<open>A step that starts by reading \<^verbatim>\<open>d[k]\<close>.\<close>

definition lookup_then :: "dict \<Rightarrow> string \<Rightarrow> (py_val \<Rightarrow> printing) \<Rightarrow> printing" where
  "lookup_then d k f = (case getitem d k of Inl e \<Rightarrow> ([], Some e) | Inr v \<Rightarrow> f v)"

text \<open>\<^verbatim>\<open>sum(1 for r in results if r['status'] == 'up')\<close>\<close>

fun up_count :: "dict list \<Rightarrow> py_error + nat" where
  "up_count [] = Inr 0"
| "up_count (r # results) =
     (case getitem r ''status'' of
        Inl e \<Rightarrow> Inl e
      | Inr status \<Rightarrow>
          (case up_count results of
             Inl e \<Rightarrow> Inl e
           | Inr n \<Rightarrow> Inr ((if status = PStr ''up'' then 1 else 0) + n)))"

text \<open>The body of the loop over the results.\<close>

definition print_result :: "bool \<Rightarrow> dict \<Rightarrow> printing" where
  "print_result show_details result =
     lookup_then result ''status'' (\<lambda>status.
       let symbol = symbol_of status
       in lookup_then result ''name'' (\<lambda>name.
            case format_left 30 name of
              Inl e \<Rightarrow> ([], Some e)
            | Inr name30 \<Rightarrow>
                lookup_then result ''url'' (\<lambda>url.
                  case format_left 50 url of
                    Inl e \<Rightarrow> ([], Some e)
                  | Inr url50 \<Rightarrow>
                      then_print ([symbol @ '' '' @ name30 @ '' | '' @ url50], None)
                        (if show_details then
                           then_print
                             (lookup_then result ''status_code'' (\<lambda>v.
                                (if truthy v then [''   Status Code: '' @ py_str v] else [], None)))
                          (then_print
                             (lookup_then result ''response_time'' (\<lambda>v.
                                (if truthy v then [''   Response Time: '' @ py_str v @ ''ms'']
                                 else [], None)))
                          (then_print
                             (lookup_then result ''error'' (\<lambda>v.
                                (if truthy v then [''   Error: '' @ py_str v] else [], None)))
                             ([[]], None)))
                         else ([], None)))))"

fun print_each :: "bool \<Rightarrow> dict list \<Rightarrow> printing" where
  "print_each show_details [] = ([], None)"
| "print_each show_details (result # results) =
     then_print (print_result show_details result) (print_each show_details results)"

text \<open>
  \<^verbatim>\<open>print_results\<close> does not use \<^verbatim>\<open>self\<close>; the world gives the clock of the header.
\<close>

definition print_results :: "world \<Rightarrow> dict list \<Rightarrow> bool \<Rightarrow> printing" where
  "print_results w results show_details =
     then_print
       ([[CHR 0x0A] @ replicate 80 (CHR ''=''),
         ''URL POLLING RESULTS - '' @ strftime_report (report_now w),
         replicate 80 (CHR ''='')], None)
       (case up_count results of
          Inl e \<Rightarrow> ([], Some e)
        | Inr up \<Rightarrow>
            then_print
              ([''Summary: '' @ str_nat up @ ''/'' @ str_nat (length results) @
                  '' URLs are responding'',
                []], None)
              (print_each show_details results))"

section \<open>The program\<close>

text \<open>How a piece of the program ends: it returns, calls \<^verbatim>\<open>sys.exit\<close>, or raises.\<close>

datatype 'a ending = Returns 'a | SysExit int | Uncaught py_error

text \<open>What is printed: a text, or the \<^verbatim>\<open>repr\<close> of a dictionary of strings.\<close>

datatype printed = Line string | DictRepr "(string \<times> string) list"

text \<open>
  What a run leaves behind: the standard output, the endpoints handed to the poller, and
  the output file (name and content) if one was written. Printing and writing the output
  file are taken to succeed.
\<close>

record trace =
  stdout :: "printed list"
  checked :: "(string \<times> string) list"
  written :: "(string \<times> json) option"

definition load_urls_from_file :: "world \<Rightarrow> string \<Rightarrow> printed list \<times> (string \<times> string) list list ending" where
  "load_urls_from_file w filename =
     (case read_file w filename of
        Loaded v \<Rightarrow> ([], Returns v)
      | FileNotFoundError \<Rightarrow>
          ([Line (''Error: File '' @ [CHR 0x27] @ filename @ [CHR 0x27] @ '' not found'')],
           SysExit 1)
      | JSONDecodeError \<Rightarrow>
          ([Line (''Error: Invalid JSON in file '' @ [CHR 0x27] @ filename @ [CHR 0x27])],
           SysExit 1))"

text \<open>
  The loop that turns the list of items into the dictionary from captions to URLs,
  \<open>urls_dict\<close> being the dictionary built so far.
\<close>

fun build_urls_dict ::
  "(string \<times> string) list list \<Rightarrow> (string \<times> string) list \<Rightarrow> py_error + (string \<times> string) list" where
  "build_urls_dict [] urls_dict = Inr urls_dict"
| "build_urls_dict (item # items) urls_dict =
     (case map_of item ''url'' of
        None \<Rightarrow> Inl KeyError
      | Some url \<Rightarrow>
          (case map_of item ''caption'' of
             None \<Rightarrow> Inl KeyError
           | Some caption \<Rightarrow> build_urls_dict items (setitem urls_dict caption url)))"

text \<open>\<^verbatim>\<open>sum(1 for r in results if r['status'] not in ['up', 'redirect'])\<close>\<close>

fun failed_count :: "dict list \<Rightarrow> py_error + nat" where
  "failed_count [] = Inr 0"
| "failed_count (r # results) =
     (case getitem r ''status'' of
        Inl e \<Rightarrow> Inl e
      | Inr status \<Rightarrow>
          (case failed_count results of
             Inl e \<Rightarrow> Inl e
           | Inr n \<Rightarrow>
               Inr ((if status \<notin> set [PStr ''up'', PStr ''redirect''] then 1 else 0) + n)))"

text \<open>
  The statements that \<^verbatim>\<open>main\<close> and the file branch of the script have in common: print
  the dictionary, poll with a poller of timeout 10 and 5 workers, print the results, save
  them and print the name of the file.
\<close>

definition poll_print_save :: "world \<Rightarrow> (string \<times> string) list \<Rightarrow> trace \<times> dict list ending" where
  "poll_print_save w urls_dict =
     (let poller = \<lparr>timeout = 10, max_workers = 5\<rparr>;
          out = [DictRepr urls_dict]
      in case poll_urls poller w urls_dict of
           Inl e \<Rightarrow>
             (\<lparr>stdout = out, checked = (if e = ValueError then [] else urls_dict),
               written = None\<rparr>,
              Uncaught e)
         | Inr results \<Rightarrow>
             (let printing = print_results w results True;
                  out = out @ map Line (fst printing)
              in case snd printing of
                   Some e \<Rightarrow>
                     (\<lparr>stdout = out, checked = urls_dict, written = None\<rparr>, Uncaught e)
                 | None \<Rightarrow>
                     (let output_file =
                            ''url_poll_results_'' @ strftime_file (save_now w) @ ''.json''
                      in (\<lparr>stdout =
                             out @ [Line ([CHR 0x0A] @ ''Results saved to: '' @ output_file)],
                           checked = urls_dict,
                           written = Some (output_file, json_dump results)\<rparr>,
                          Returns results))))"

definition main :: "world \<Rightarrow> trace \<times> int ending" where
  "main w =
     (let urls =
            [[(''url'', ''https://www.google.com''), (''caption'', ''Google'')],
             [(''url'', ''https://www.amazon.com''), (''caption'', ''Amazon'')],
             [(''url'', ''https://www.github.com''), (''caption'', ''Github'')]];
          poller = \<lparr>timeout = 10, max_workers = 5\<rparr>;
          out = [Line ''Starting URL polling...'',
                 Line (''Checking '' @ str_nat (length urls) @ '' URLs with '' @
                       str_int (max_workers poller) @ '' concurrent workers'')]
      in case build_urls_dict urls [] of
           Inl e \<Rightarrow> (\<lparr>stdout = out, checked = [], written = None\<rparr>, Uncaught e)
         | Inr urls_dict \<Rightarrow>
             (let run = poll_print_save w urls_dict;
                  t = (fst run)\<lparr>stdout := out @ stdout (fst run)\<rparr>
              in case snd run of
                   Returns results \<Rightarrow>
                     (case failed_count results of
                        Inl e \<Rightarrow> (t, Uncaught e)
                      | Inr failed \<Rightarrow> (t, Returns (int failed)))
                 | SysExit c \<Rightarrow> (t, SysExit c)
                 | Uncaught e \<Rightarrow> (t, Uncaught e)))"

text \<open>
  The script, lines 227 to 250: with an argument it loads the endpoints from the file and
  runs to its end; without one it runs \<^verbatim>\<open>main\<close> and exits with its return value. The
  result is what the run leaves behind and the exit status of the process: the argument of
  \<^verbatim>\<open>sys.exit\<close>, 1 after an uncaught exception, 0 when the script runs to its end.
\<close>

definition script :: "world \<Rightarrow> trace \<times> int" where
  "script w =
     (if length (argv w) > 1 then
        (case load_urls_from_file w (argv w ! 1) of
           (out, Returns urls) \<Rightarrow>
             (case build_urls_dict urls [] of
                Inl e \<Rightarrow> (\<lparr>stdout = out, checked = [], written = None\<rparr>, 1)
              | Inr urls_dict \<Rightarrow>
                  (let run = poll_print_save w urls_dict;
                       t = (fst run)\<lparr>stdout := out @ stdout (fst run)\<rparr>
                   in case snd run of
                        Returns results \<Rightarrow> (t, 0)
                      | SysExit c \<Rightarrow> (t, c)
                      | Uncaught e \<Rightarrow> (t, 1)))
         | (out, SysExit c) \<Rightarrow> (\<lparr>stdout = out, checked = [], written = None\<rparr>, c)
         | (out, Uncaught e) \<Rightarrow> (\<lparr>stdout = out, checked = [], written = None\<rparr>, 1))
      else
        (let run = main w
         in case snd run of
              Returns exit_code \<Rightarrow> (fst run, exit_code)
            | SysExit c \<Rightarrow> (fst run, c)
            | Uncaught e \<Rightarrow> (fst run, 1)))"

section \<open>The shape of an ISO 8601 date and time\<close>

text \<open>
  The extended format \<^verbatim>\<open>YYYY-MM-DDThh:mm:ss\<close> with an optional decimal fraction of the
  second: digits and separators in their places, and month, day, hour, minute and second
  within their ranges.
\<close>

definition is_digit :: "char \<Rightarrow> bool" where
  "is_digit c \<longleftrightarrow> c \<in> set ''0123456789''"

definition digit_val :: "char \<Rightarrow> nat" where
  "digit_val c = of_char c - 48"

definition two_digits :: "string \<Rightarrow> nat \<Rightarrow> nat" where
  "two_digits s i = 10 * digit_val (s ! i) + digit_val (s ! (i + 1))"

definition is_iso8601 :: "string \<Rightarrow> bool" where
  "is_iso8601 s \<longleftrightarrow>
     19 \<le> length s \<and>
     list_all is_digit (take 4 s) \<and> s ! 4 = CHR ''-'' \<and>
     list_all is_digit (take 2 (drop 5 s)) \<and> s ! 7 = CHR ''-'' \<and>
     list_all is_digit (take 2 (drop 8 s)) \<and> s ! 10 = CHR ''T'' \<and>
     list_all is_digit (take 2 (drop 11 s)) \<and> s ! 13 = CHR '':'' \<and>
     list_all is_digit (take 2 (drop 14 s)) \<and> s ! 16 = CHR '':'' \<and>
     list_all is_digit (take 2 (drop 17 s)) \<and>
     1 \<le> two_digits s 5 \<and> two_digits s 5 \<le> 12 \<and>
     1 \<le> two_digits s 8 \<and> two_digits s 8 \<le> 31 \<and>
     two_digits s 11 < 24 \<and> two_digits s 14 < 60 \<and> two_digits s 17 < 60 \<and>
     (drop 19 s = [] \<or>
      (s ! 19 = CHR ''.'' \<and> drop 20 s \<noteq> [] \<and> list_all is_digit (drop 20 s)))"

section \<open>Example inputs\<close>

definition ex_poller :: poller where
  "ex_poller = \<lparr>timeout = 10, max_workers = 5\<rparr>"

definition ex_datetime :: datetime where
  "ex_datetime =
     \<lparr>year = 2024, month = 3, day = 7, hour = 9, minute = 5, second = 0, microsecond = 120\<rparr>"

text \<open>A check that starts at second 100 and gets its outcome 250 milliseconds later.\<close>

definition ex_obs :: "get_outcome \<Rightarrow> check_obs" where
  "ex_obs outcome =
     \<lparr>now = ex_datetime, start_time = 100, get_result = outcome, end_time = 100 + 1 / 4\<rparr>"

text \<open>
  A run over four endpoints: \<^verbatim>\<open>alpha\<close> answers 404, \<^verbatim>\<open>Beta\<close> times out, the future of
  \<^verbatim>\<open>Zed\<close> raises, \<^verbatim>\<open>beta\<close> answers 200; the futures complete in the order of the length
  of their URLs.
\<close>

definition ex_urls :: "(string \<times> string) list" where
  "ex_urls =
     [(''beta'', ''http://b.example/long/path''),
      (''Zed'', ''http://z.example''),
      (''alpha'', ''http://a/missing''),
      (''Beta'', ''http://slow'')]"

definition ex_world :: world where
  "ex_world =
     \<lparr>observe = (\<lambda>name url.
          ex_obs (if url = ''http://a/missing'' then Response 404
                  else if url = ''http://slow'' then Raises (Exc ReadTimeout ''Read timed out.'')
                  else Response 200)),
      future_error = (\<lambda>name url. if name = ''Zed'' then Some ''cancelled'' else None),
      completion_rank = (\<lambda>name url. length url),
      collect_now = (\<lambda>name url. ex_datetime),
      report_now = ex_datetime,
      save_now = ex_datetime,
      argv = [''url_poller.py''],
      read_file = (\<lambda>filename. FileNotFoundError)\<rparr>"

text \<open>
  The same world, the script now started with the argument \<^verbatim>\<open>urls.json\<close>, a file that
  lists the one endpoint \<^verbatim>\<open>alpha\<close>.
\<close>

definition ex_world_file :: world where
  "ex_world_file =
     ex_world
       \<lparr>argv := [''url_poller.py'', ''urls.json''],
        read_file := (\<lambda>filename.
          if filename = ''urls.json''
          then Loaded [[(''url'', ''http://a/missing''), (''caption'', ''alpha'')]]
          else FileNotFoundError)\<rparr>"

text \<open>
  A check during which the wall clock is set back by one second: \<^verbatim>\<open>time.time()\<close> reads
  100 before the request and 99 after it.
\<close>

definition ex_obs_clock_back :: check_obs where
  "ex_obs_clock_back =
     \<lparr>now = ex_datetime, start_time = 100, get_result = Response 200, end_time = 99\<rparr>"

text \<open>
  Two results for the report: one whose status code is 0 and whose response time is 0.0,
  and one of a check that got a 404 after 250 milliseconds.
\<close>

definition ex_result_zero :: dict where
  "ex_result_zero =
     [(''name'', PStr ''idle''),
      (''url'', PStr ''http://idle.example''),
      (''status'', PStr ''unknown''),
      (''status_code'', PInt 0),
      (''response_time'', PFloat (Fin 0)),
      (''error'', PNone),
      (''timestamp'', PStr ''2024-03-07T09:05:00.000120'')]"

definition ex_result_404 :: dict where
  "ex_result_404 =
     [(''name'', PStr ''alpha''),
      (''url'', PStr ''http://a/missing''),
      (''status'', PStr ''client_error''),
      (''status_code'', PInt 404),
      (''response_time'', PFloat (Fin 250)),
      (''error'', PNone),
      (''timestamp'', PStr ''2024-03-07T09:05:00.000120'')]"

text \<open>
  The script started with the name of a file that does not exist, and with the name of a
  file that is not valid JSON.
\<close>

definition ex_world_missing :: world where
  "ex_world_missing = ex_world\<lparr>argv := [''url_poller.py'', ''missing.json'']\<rparr>"

definition ex_world_malformed :: world where
  "ex_world_malformed =
     ex_world\<lparr>argv := [''url_poller.py'', ''broken.json''],
              read_file := (\<lambda>filename. JSONDecodeError)\<rparr>"

text \<open>The field names of a JSON object.\<close>

fun json_keys :: "json \<Rightarrow> string list" where
  "json_keys (JObject members) = map fst members"
| "json_keys v = []"

section \<open>Properties of \<open>check_url\<close>\<close>

lemma getitem_check_url_name:
  "getitem (check_url self ob name url) ''name'' = Inr (PStr name)"
  unfolding check_url_def
  by (cases "get_result ob") (simp_all add: setitem_def Let_def getitem_def)

lemma getitem_check_url_url:
  "getitem (check_url self ob name url) ''url'' = Inr (PStr url)"
  unfolding check_url_def
  by (cases "get_result ob") (simp_all add: setitem_def Let_def getitem_def)

lemma keys_check_url:
  "map fst (check_url self ob name url) =
     [''name'', ''url'', ''status'', ''status_code'', ''response_time'', ''error'', ''timestamp'']"
  unfolding check_url_def
  by (cases "get_result ob") (simp_all add: setitem_def Let_def)

lemma getitem_check_url_timestamp:
  "getitem (check_url self ob name url) ''timestamp'' = Inr (PStr (isoformat (now ob)))"
  unfolding check_url_def
  by (cases "get_result ob") (simp_all add: setitem_def Let_def getitem_def)

lemma getitem_check_url_status_code:
  "get_result ob = Response c \<Longrightarrow>
     getitem (check_url self ob name url) ''status_code'' = Inr (PInt c)"
  by (simp add: check_url_def setitem_def Let_def getitem_def)

lemma getitem_check_url_response_time:
  "get_result ob = Response c \<Longrightarrow>
     getitem (check_url self ob name url) ''response_time'' =
       Inr (PFloat (py_round2 (fmul_1000 (fsub (end_time ob) (start_time ob)))))"
  by (simp add: check_url_def setitem_def Let_def getitem_def)

lemma getitem_check_url_status_Response:
  "get_result ob = Response c \<Longrightarrow>
     getitem (check_url self ob name url) ''status'' =
       Inr (PStr (if c = 200 then ''up''
                  else if 300 \<le> c \<and> c < 400 then ''redirect''
                  else if 400 \<le> c \<and> c < 500 then ''client_error''
                  else if 500 \<le> c \<and> c < 600 then ''server_error''
                  else ''unknown''))"
  by (simp add: check_url_def setitem_def Let_def getitem_def)

lemma getitem_check_url_Timeout:
  assumes "get_result ob = Raises e" and "isinstance_Timeout e"
  shows "getitem (check_url self ob name url) ''status'' = Inr (PStr ''timeout'')"
    and "getitem (check_url self ob name url) ''error'' =
           Inr (PStr (''Request timed out after '' @ str_int (timeout self) @ '' seconds''))"
    and "getitem (check_url self ob name url) ''status_code'' = Inr PNone"
    and "getitem (check_url self ob name url) ''response_time'' = Inr PNone"
  using assms by (simp_all add: check_url_def setitem_def Let_def getitem_def)

lemma status_check_url:
  "\<exists>s. getitem (check_url self ob name url) ''status'' = Inr (PStr s) \<and>
       s \<in> set [''up'', ''redirect'', ''client_error'', ''server_error'', ''unknown'',
                 ''timeout'', ''connection_error'', ''error'']"
  unfolding check_url_def
  by (cases "get_result ob") (simp_all add: setitem_def Let_def getitem_def)

text \<open>
  Claim C2. When the request returns a response, \<open>check_url\<close> stores the received status
  code under \<^verbatim>\<open>status_code\<close> and classifies it: 200 is \<^verbatim>\<open>up\<close>, 300 to 399 is
  \<^verbatim>\<open>redirect\<close>, 400 to 499 is \<^verbatim>\<open>client_error\<close>, 500 to 599 is \<^verbatim>\<open>server_error\<close>, and
  every other code is \<^verbatim>\<open>unknown\<close>.
\<close>

theorem check_url_classifies_response:
  "get_result ob = Response c \<Longrightarrow>
     (let r = check_url self ob name url
      in getitem r ''status_code'' = Inr (PInt c) \<and>
         (c = 200 \<longrightarrow> getitem r ''status'' = Inr (PStr ''up'')) \<and>
         (300 \<le> c \<and> c \<le> 399 \<longrightarrow> getitem r ''status'' = Inr (PStr ''redirect'')) \<and>
         (400 \<le> c \<and> c \<le> 499 \<longrightarrow> getitem r ''status'' = Inr (PStr ''client_error'')) \<and>
         (500 \<le> c \<and> c \<le> 599 \<longrightarrow> getitem r ''status'' = Inr (PStr ''server_error'')) \<and>
         (c \<noteq> 200 \<and> \<not> (300 \<le> c \<and> c \<le> 599) \<longrightarrow>
            getitem r ''status'' = Inr (PStr ''unknown'')))"
  by (simp add: getitem_check_url_status_code getitem_check_url_status_Response)

theorem check_url_classifies_response_witness:
  "get_result (ex_obs (Response 404)) = Response 404 \<and>
   getitem (check_url ex_poller (ex_obs (Response 404)) ''A'' ''http://a/missing'') ''status_code''
     = Inr (PInt 404) \<and>
   getitem (check_url ex_poller (ex_obs (Response 404)) ''A'' ''http://a/missing'') ''status''
     = Inr (PStr ''client_error'') \<and>
   getitem (check_url ex_poller (ex_obs (Response 200)) ''A'' ''http://a'') ''status''
     = Inr (PStr ''up'') \<and>
   getitem (check_url ex_poller (ex_obs (Response 301)) ''A'' ''http://a'') ''status''
     = Inr (PStr ''redirect'') \<and>
   getitem (check_url ex_poller (ex_obs (Response 503)) ''A'' ''http://a'') ''status''
     = Inr (PStr ''server_error'') \<and>
   getitem (check_url ex_poller (ex_obs (Response 204)) ''A'' ''http://a'') ''status''
     = Inr (PStr ''unknown'')"
proof -
  have h: "get_result (ex_obs (Response c)) = Response c" for c
    by (simp add: ex_obs_def)
  show ?thesis
    using h [of 404]
      check_url_classifies_response [OF h [of 404], of ex_poller "''A''" "''http://a/missing''"]
      check_url_classifies_response [OF h [of 200], of ex_poller "''A''" "''http://a''"]
      check_url_classifies_response [OF h [of 301], of ex_poller "''A''" "''http://a''"]
      check_url_classifies_response [OF h [of 503], of ex_poller "''A''" "''http://a''"]
      check_url_classifies_response [OF h [of 204], of ex_poller "''A''" "''http://a''"]
    by (simp add: Let_def)
qed

text \<open>
  Claim C5. When the request raises a timeout, \<open>check_url\<close> returns status \<^verbatim>\<open>timeout\<close> and
  an error message, a string and so not \<^verbatim>\<open>None\<close>, that contains the configured timeout as
  \<^verbatim>\<open>str\<close> renders it; \<^verbatim>\<open>status_code\<close> and \<^verbatim>\<open>response_time\<close> stay \<^verbatim>\<open>None\<close>.
\<close>

theorem check_url_timeout:
  assumes "get_result ob = Raises e" and "isinstance_Timeout e"
  shows "(let r = check_url self ob name url
          in getitem r ''status'' = Inr (PStr ''timeout'') \<and>
             (\<exists>msg. getitem r ''error'' = Inr (PStr msg) \<and>
                    sublist (str_int (timeout self)) msg) \<and>
             getitem r ''status_code'' = Inr PNone \<and>
             getitem r ''response_time'' = Inr PNone)"
proof -
  let ?msg = "''Request timed out after '' @ str_int (timeout self) @ '' seconds''"
  have "sublist (str_int (timeout self)) ?msg"
    by (rule sublist_appendI)
  moreover have "getitem (check_url self ob name url) ''error'' = Inr (PStr ?msg)"
    using assms by (rule getitem_check_url_Timeout(2))
  ultimately have
    "\<exists>msg. getitem (check_url self ob name url) ''error'' = Inr (PStr msg) \<and>
           sublist (str_int (timeout self)) msg"
    by blast
  then show ?thesis
    unfolding Let_def using getitem_check_url_Timeout(1,3,4) [OF assms] by blast
qed

theorem check_url_timeout_witness:
  "get_result (ex_obs (Raises (Exc ReadTimeout ''Read timed out.''))) =
     Raises (Exc ReadTimeout ''Read timed out.'') \<and>
   isinstance_Timeout (Exc ReadTimeout ''Read timed out.'') \<and>
   str_int (timeout ex_poller) = ''10'' \<and>
   (let r = check_url ex_poller (ex_obs (Raises (Exc ReadTimeout ''Read timed out.'')))
              ''A'' ''http://a''
    in getitem r ''status'' = Inr (PStr ''timeout'') \<and>
       (\<exists>msg. getitem r ''error'' = Inr (PStr msg) \<and> sublist (str_int (timeout ex_poller)) msg) \<and>
       getitem r ''status_code'' = Inr PNone \<and>
       getitem r ''response_time'' = Inr PNone)"
proof -
  have h1: "get_result (ex_obs (Raises (Exc ReadTimeout ''Read timed out.''))) =
              Raises (Exc ReadTimeout ''Read timed out.'')"
    by (simp add: ex_obs_def)
  have h2: "isinstance_Timeout (Exc ReadTimeout ''Read timed out.'')"
    by simp
  have h3: "str_int (timeout ex_poller) = ''10''"
    by (simp add: ex_poller_def str_int_def str_nat.simps digit_char_def)
  show ?thesis
    using h1 h2 h3 check_url_timeout [OF h1 h2, of ex_poller "''A''" "''http://a''"]
    by blast
qed

text \<open>
  Claim C9. For every name, URL and outcome of the request (a response, or any exception
  of class \<^verbatim>\<open>Exception\<close>), \<open>check_url\<close> returns a dictionary: no exception reaches the
  caller. The dictionary has the seven keys of a result, \<^verbatim>\<open>name\<close> and \<^verbatim>\<open>url\<close> are the
  arguments, and \<^verbatim>\<open>status\<close> is one of the eight status words.
\<close>

theorem check_url_total:
  "let r = check_url self ob name url
   in map fst r =
        [''name'', ''url'', ''status'', ''status_code'', ''response_time'', ''error'',
         ''timestamp''] \<and>
      getitem r ''name'' = Inr (PStr name) \<and>
      getitem r ''url'' = Inr (PStr url) \<and>
      (\<exists>s. getitem r ''status'' = Inr (PStr s) \<and>
           s \<in> set [''up'', ''redirect'', ''client_error'', ''server_error'', ''unknown'',
                     ''timeout'', ''connection_error'', ''error''])"
  unfolding Let_def
  using keys_check_url getitem_check_url_name getitem_check_url_url status_check_url
  by blast

section \<open>Properties of \<open>poll_urls\<close>\<close>

lemma collect_eq: "collect w futures results = results @ map (collect_result w) futures"
  by (induction futures arbitrary: results) simp_all

lemma getitem_collect_result_name:
  "getitem (collect_result w (submit self w name url, name, url)) ''name'' = Inr (PStr name)"
  by (cases "future_error w name url")
     (simp_all add: submit_def getitem_check_url_name, simp add: getitem_def)

lemma getitem_collect_result_url:
  "getitem (collect_result w (submit self w name url, name, url)) ''url'' = Inr (PStr url)"
  by (cases "future_error w name url")
     (simp_all add: submit_def getitem_check_url_url, simp add: getitem_def)

lemma getitem_Inr_iff: "getitem d k = Inr v \<longleftrightarrow> map_of d k = Some v"
  by (simp add: getitem_def split: option.splits)

lemma name_key_eq: "getitem d ''name'' = Inr v \<Longrightarrow> name_key d = v"
  by (simp add: getitem_def name_key_def split: option.splits)

lemma sorted_by_name_str:
  assumes "\<forall>x \<in> set results. \<exists>s. getitem x ''name'' = Inr (PStr s)"
  shows "\<exists>rs. sorted_by_name results = Inr rs \<and> mset rs = mset results \<and>
           sorted (map (\<lambda>x. str_of (name_key x)) rs)"
proof -
  have a: "\<not> list_ex (\<lambda>x. map_of x ''name'' = None) results"
    using assms by (auto simp: list_ex_iff getitem_Inr_iff)
  have b: "list_all (\<lambda>x. is_str (name_key x)) results"
    using assms by (auto simp: list_all_iff dest!: name_key_eq)
  show ?thesis
  proof (cases "length results \<le> 1")
    case True
    then have "sorted (map (\<lambda>x. str_of (name_key x)) results)"
      by (cases results) (simp_all)
    with True a show ?thesis by (simp add: sorted_by_name_def)
  next
    case False
    with a b show ?thesis by (simp add: sorted_by_name_def)
  qed
qed

lemma poll_urls_result:
  assumes "0 < max_workers self"
  shows "\<exists>rs. poll_urls self w urls = Inr rs \<and>
           mset rs = mset (map (\<lambda>(name, url). collect_result w (submit self w name url, name, url)) urls) \<and>
           sorted (map (\<lambda>x. str_of (name_key x)) rs)"
proof -
  let ?mk = "\<lambda>(name, url). (submit self w name url, name, url)"
  let ?results = "collect w (as_completed w (map ?mk urls)) []"
  have set_eq: "set (as_completed w (map ?mk urls)) = ?mk ` set urls"
    by (simp add: as_completed_def)
  have "\<forall>x \<in> set ?results. \<exists>s. getitem x ''name'' = Inr (PStr s)"
    using getitem_collect_result_name by (auto simp: collect_eq set_eq)
  from sorted_by_name_str [OF this] obtain rs where
    rs: "sorted_by_name ?results = Inr rs" "mset rs = mset ?results"
      "sorted (map (\<lambda>x. str_of (name_key x)) rs)"
    by blast
  have "mset ?results = image_mset (collect_result w) (mset (map ?mk urls))"
    by (simp add: collect_eq as_completed_def)
  also have "\<dots> = mset (map (\<lambda>(name, url). collect_result w (submit self w name url, name, url)) urls)"
    by (simp add: image_mset.compositionality comp_def case_prod_unfold)
  finally have "mset rs = mset (map (\<lambda>(name, url). collect_result w (submit self w name url, name, url)) urls)"
    using rs(2) by simp
  moreover have "poll_urls self w urls = Inr rs"
    using assms rs(1) by (simp add: poll_urls_def Let_def)
  ultimately show ?thesis using rs(3) by blast
qed

lemma collect_result_submit_None:
  "future_error w name url = None \<Longrightarrow>
     collect_result w (submit self w name url, name, url) = check_url self (observe w name url) name url"
  by (simp add: submit_def)

lemma collect_result_submit_Some:
  "future_error w name url = Some e \<Longrightarrow>
     collect_result w (submit self w name url, name, url) =
       [(''name'', PStr name), (''url'', PStr url), (''status'', PStr ''error''),
        (''status_code'', PNone), (''response_time'', PNone),
        (''error'', PStr (''Future execution error: '' @ e)),
        (''timestamp'', PStr (isoformat (collect_now w name url)))]"
  by (simp add: submit_def)

text \<open>
  Claim C1. For a poller with a positive number of workers and a dictionary of endpoints
  (its names are distinct), \<open>poll_urls\<close> returns a list with exactly one result per
  endpoint: as many results as endpoints, no name twice, the names of the results are the
  names of the endpoints, and every endpoint has a result with its name and its URL. When
  the future of an endpoint raises, that result is the substitute: status \<^verbatim>\<open>error\<close>, the
  endpoint's name and URL, and an error message made of \<^verbatim>\<open>Future execution error: \<close> and
  the text of the exception. Otherwise it is what \<open>check_url\<close> returned.
\<close>

theorem poll_urls_one_result_per_endpoint:
  assumes "0 < max_workers self" and "distinct (map fst urls)"
  shows "\<exists>results. poll_urls self w urls = Inr results \<and>
           length results = length urls \<and>
           distinct (map (\<lambda>r. getitem r ''name'') results) \<and>
           set (map (\<lambda>r. getitem r ''name'') results) = set (map (\<lambda>(name, url). Inr (PStr name)) urls) \<and>
           (\<forall>(name, url) \<in> set urls. \<exists>r \<in> set results.
              getitem r ''name'' = Inr (PStr name) \<and>
              getitem r ''url'' = Inr (PStr url) \<and>
              (case future_error w name url of
                 None \<Rightarrow> r = check_url self (observe w name url) name url
               | Some e \<Rightarrow>
                   getitem r ''status'' = Inr (PStr ''error'') \<and>
                   getitem r ''error'' = Inr (PStr (''Future execution error: '' @ e)) \<and>
                   getitem r ''status_code'' = Inr PNone \<and>
                   getitem r ''response_time'' = Inr PNone))"
proof -
  let ?c = "\<lambda>(name, url). collect_result w (submit self w name url, name, url)"
  let ?n = "\<lambda>r. getitem r ''name''"
  from poll_urls_result [OF assms(1)] obtain rs where
    rs: "poll_urls self w urls = Inr rs" "mset rs = mset (map ?c urls)"
    by blast
  have names: "map ?n (map ?c urls) = map (\<lambda>(name, url). Inr (PStr name)) urls"
    by (auto simp: getitem_collect_result_name)
  have len: "length rs = length urls"
    using mset_eq_length [OF rs(2)] by simp
  have "mset (map ?n rs) = mset (map ?n (map ?c urls))"
    using arg_cong [OF rs(2), of "image_mset ?n"] by (simp only: mset_map)
  then have m: "mset (map ?n rs) = mset (map (\<lambda>(name, url). Inr (PStr name)) urls)"
    by (simp only: names)
  have "distinct (map (\<lambda>(name, url). Inr (PStr name) :: py_error + py_val) urls)"
  proof -
    have "distinct urls" and inj: "inj_on fst (set urls)"
      using assms(2) by (simp_all add: distinct_map)
    moreover have "inj_on (\<lambda>(name, url). Inr (PStr name) :: py_error + py_val) (set urls)"
      using inj by (fastforce simp: inj_on_def)
    ultimately show ?thesis by (simp add: distinct_map)
  qed
  then have dist: "distinct (map ?n rs)"
    using mset_eq_imp_distinct_iff [OF m] by simp
  have sets: "set (map ?n rs) = set (map (\<lambda>(name, url). Inr (PStr name)) urls)"
    by (rule mset_eq_setD [OF m])
  have each: "\<forall>(name, url) \<in> set urls. \<exists>r \<in> set rs.
              getitem r ''name'' = Inr (PStr name) \<and>
              getitem r ''url'' = Inr (PStr url) \<and>
              (case future_error w name url of
                 None \<Rightarrow> r = check_url self (observe w name url) name url
               | Some e \<Rightarrow>
                   getitem r ''status'' = Inr (PStr ''error'') \<and>
                   getitem r ''error'' = Inr (PStr (''Future execution error: '' @ e)) \<and>
                   getitem r ''status_code'' = Inr PNone \<and>
                   getitem r ''response_time'' = Inr PNone)"
  proof (clarify)
    fix name url assume in_urls: "(name, url) \<in> set urls"
    let ?r = "collect_result w (submit self w name url, name, url)"
    have "set rs = set (map ?c urls)"
      by (rule mset_eq_setD [OF rs(2)])
    then have "?r \<in> set rs"
      using in_urls by force
    moreover have "getitem ?r ''name'' = Inr (PStr name)" "getitem ?r ''url'' = Inr (PStr url)"
      by (rule getitem_collect_result_name, rule getitem_collect_result_url)
    moreover have "case future_error w name url of
                 None \<Rightarrow> ?r = check_url self (observe w name url) name url
               | Some e \<Rightarrow>
                   getitem ?r ''status'' = Inr (PStr ''error'') \<and>
                   getitem ?r ''error'' = Inr (PStr (''Future execution error: '' @ e)) \<and>
                   getitem ?r ''status_code'' = Inr PNone \<and>
                   getitem ?r ''response_time'' = Inr PNone"
      by (cases "future_error w name url")
         (simp_all add: collect_result_submit_None collect_result_submit_Some getitem_def)
    ultimately show "\<exists>r \<in> set rs.
              getitem r ''name'' = Inr (PStr name) \<and>
              getitem r ''url'' = Inr (PStr url) \<and>
              (case future_error w name url of
                 None \<Rightarrow> r = check_url self (observe w name url) name url
               | Some e \<Rightarrow>
                   getitem r ''status'' = Inr (PStr ''error'') \<and>
                   getitem r ''error'' = Inr (PStr (''Future execution error: '' @ e)) \<and>
                   getitem r ''status_code'' = Inr PNone \<and>
                   getitem r ''response_time'' = Inr PNone)"
      by blast
  qed
  show ?thesis
    using rs(1) len dist sets each by blast
qed

theorem poll_urls_one_result_per_endpoint_witness:
  "0 < max_workers ex_poller \<and> distinct (map fst ex_urls) \<and>
   (\<exists>results. poll_urls ex_poller ex_world ex_urls = Inr results \<and>
      length results = 4 \<and>
      distinct (map (\<lambda>r. getitem r ''name'') results) \<and>
      (\<exists>r \<in> set results.
         getitem r ''name'' = Inr (PStr ''Zed'') \<and>
         getitem r ''url'' = Inr (PStr ''http://z.example'') \<and>
         getitem r ''status'' = Inr (PStr ''error'') \<and>
         getitem r ''error'' = Inr (PStr ''Future execution error: cancelled'')) \<and>
      (\<exists>r \<in> set results.
         r = check_url ex_poller (observe ex_world ''alpha'' ''http://a/missing'')
               ''alpha'' ''http://a/missing''))"
proof -
  have h1: "0 < max_workers ex_poller"
    by (simp add: ex_poller_def)
  have h2: "distinct (map fst ex_urls)"
    by (simp add: ex_urls_def)
  from poll_urls_one_result_per_endpoint [OF h1 h2, of ex_world]
  obtain results where
    r: "poll_urls ex_poller ex_world ex_urls = Inr results"
      "length results = length ex_urls"
      "distinct (map (\<lambda>r. getitem r ''name'') results)"
    and each: "\<forall>(name, url) \<in> set ex_urls. \<exists>r \<in> set results.
              getitem r ''name'' = Inr (PStr name) \<and>
              getitem r ''url'' = Inr (PStr url) \<and>
              (case future_error ex_world name url of
                 None \<Rightarrow> r = check_url ex_poller (observe ex_world name url) name url
               | Some e \<Rightarrow>
                   getitem r ''status'' = Inr (PStr ''error'') \<and>
                   getitem r ''error'' = Inr (PStr (''Future execution error: '' @ e)) \<and>
                   getitem r ''status_code'' = Inr PNone \<and>
                   getitem r ''response_time'' = Inr PNone)"
    by blast
  have z: "(''Zed'', ''http://z.example'') \<in> set ex_urls"
    and a: "(''alpha'', ''http://a/missing'') \<in> set ex_urls"
    by (simp_all add: ex_urls_def)
  have fz: "future_error ex_world ''Zed'' ''http://z.example'' = Some ''cancelled''"
    and fa: "future_error ex_world ''alpha'' ''http://a/missing'' = None"
    by (simp_all add: ex_world_def)
  have "\<exists>r \<in> set results.
         getitem r ''name'' = Inr (PStr ''Zed'') \<and>
         getitem r ''url'' = Inr (PStr ''http://z.example'') \<and>
         getitem r ''status'' = Inr (PStr ''error'') \<and>
         getitem r ''error'' = Inr (PStr ''Future execution error: cancelled'')"
    using bspec [OF each z] by (simp add: fz) blast
  moreover have "\<exists>r \<in> set results.
         r = check_url ex_poller (observe ex_world ''alpha'' ''http://a/missing'')
               ''alpha'' ''http://a/missing''"
    using bspec [OF each a] by (simp add: fa)
  moreover have "length results = 4"
    using r(2) by (simp add: ex_urls_def)
  ultimately show ?thesis
    using h1 h2 r(1,3) by blast
qed

text \<open>
  Claim C3. For a poller with a positive number of workers, the list that \<open>poll_urls\<close>
  returns is sorted by \<^verbatim>\<open>name\<close>: every name is a string and the names, in the order of
  the list, ascend in the ordinary order of strings, which compares character codes and so
  tells upper case from lower case. This holds for every world, so for every order in
  which the checks complete.
\<close>

theorem poll_urls_sorted_by_name:
  assumes "0 < max_workers self"
  shows "\<exists>results names. poll_urls self w urls = Inr results \<and>
           map (\<lambda>r. getitem r ''name'') results = map (\<lambda>n. Inr (PStr n)) names \<and>
           sorted names"
proof -
  let ?c = "\<lambda>(name, url). collect_result w (submit self w name url, name, url)"
  from poll_urls_result [OF assms(1)] obtain rs where
    rs: "poll_urls self w urls = Inr rs" "mset rs = mset (map ?c urls)"
      "sorted (map (\<lambda>x. str_of (name_key x)) rs)"
    by blast
  have "set rs = set (map ?c urls)"
    by (rule mset_eq_setD [OF rs(2)])
  then have "\<forall>r \<in> set rs. \<exists>s. getitem r ''name'' = Inr (PStr s)"
    using getitem_collect_result_name by auto
  then have "\<forall>r \<in> set rs. getitem r ''name'' = Inr (PStr (str_of (name_key r)))"
    using name_key_eq by fastforce
  then have "map (\<lambda>r. getitem r ''name'') rs = map (\<lambda>n. Inr (PStr n)) (map (\<lambda>x. str_of (name_key x)) rs)"
    by simp
  with rs(1,3) show ?thesis by blast
qed

theorem poll_urls_sorted_by_name_witness:
  "0 < max_workers ex_poller \<and>
   (\<exists>results names. poll_urls ex_poller ex_world ex_urls = Inr results \<and>
      map (\<lambda>r. getitem r ''name'') results = map (\<lambda>n. Inr (PStr n)) names \<and>
      sorted names) \<and>
   sorted [''Beta'', ''Zed'', ''alpha'', ''beta'']"
proof -
  have h1: "0 < max_workers ex_poller"
    by (simp add: ex_poller_def)
  have "sorted [''Beta'', ''Zed'', ''alpha'', ''beta'']"
    by (simp add: less_eq_char_def less_char_def)
  then show ?thesis
    using h1 poll_urls_sorted_by_name [OF h1, of ex_world ex_urls] by blast
qed

section \<open>The response time\<close>

lemma round_half_even_near: "\<bar>of_int (round_half_even y) - y\<bar> \<le> 1 / 2"
proof -
  have "of_int \<lfloor>y\<rfloor> \<le> y" and "y < of_int \<lfloor>y\<rfloor> + 1"
    by linarith+
  then show ?thesis
    unfolding round_half_even_def Let_def by (simp add: abs_if) linarith
qed

lemma round_half_even_nonneg:
  assumes "0 \<le> y"
  shows "0 \<le> round_half_even y"
proof -
  have "0 \<le> \<lfloor>y\<rfloor>"
    using assms by simp
  then show ?thesis
    unfolding round_half_even_def Let_def by simp
qed

lemma round_half_even_of_int: "round_half_even (of_int n) = n"
  by (simp add: round_half_even_def Let_def)

lemma pow2_pos: "0 < pow2 q"
  by (simp add: pow2_def)

text \<open>Rounding to binary64 keeps the sign.\<close>

lemma rnd64_nonneg:
  assumes "0 \<le> x"
  shows "float_nonneg (rnd64 x)"
proof (cases "x = 0")
  case True
  then show ?thesis by (simp add: rnd64_def)
next
  case False
  define q where "q = max (flog2 \<bar>x\<bar> - 52) (- 1074)"
  define y where "y = of_int (round_half_even (x / pow2 q)) * pow2 q"
  have "0 \<le> x / pow2 q"
    using assms pow2_pos [of q] by simp
  then have "0 \<le> round_half_even (x / pow2 q)"
    by (rule round_half_even_nonneg)
  then have "0 \<le> y"
    using pow2_pos [of q] by (simp add: y_def)
  moreover have "rnd64 x = (if 2 ^ 1024 \<le> y then PosInf
           else if y \<le> - (2 ^ 1024) then NegInf else Fin y)"
    using False by (simp add: rnd64_def Let_def q_def y_def)
  ultimately show ?thesis
    by simp
qed

lemma fsub_nonneg: "b \<le> a \<Longrightarrow> float_nonneg (fsub a b)"
  unfolding fsub_def by (rule rnd64_nonneg) simp

lemma fmul_1000_nonneg: "float_nonneg x \<Longrightarrow> float_nonneg (fmul_1000 x)"
  by (cases x) (simp_all add: rnd64_nonneg)

lemma py_round2_nonneg: "float_nonneg x \<Longrightarrow> float_nonneg (py_round2 x)"
proof (cases x)
  case (Fin a)
  assume "float_nonneg x"
  with Fin have "0 \<le> round_half_even (a * 100)"
    by (simp add: round_half_even_nonneg)
  then have "0 \<le> (of_int (round_half_even (a * 100)) / 100 :: rat)"
    by simp
  then show ?thesis
    unfolding Fin py_round2.simps by (rule rnd64_nonneg)
qed simp_all

lemma py_round2_Fin:
  "\<exists>k. py_round2 (Fin x) = rnd64 (of_int k / 100) \<and> \<bar>of_int k / 100 - x\<bar> \<le> 1 / 200"
proof -
  have "\<bar>of_int (round_half_even (x * 100)) - x * 100\<bar> \<le> 1 / 2"
    by (rule round_half_even_near)
  then have "\<bar>of_int (round_half_even (x * 100)) / 100 - x\<bar> * 100 \<le> 1 / 2"
    by (simp add: abs_if field_simps split: if_splits)
  then have "\<bar>of_int (round_half_even (x * 100)) / 100 - x\<bar> \<le> 1 / 200"
    by simp
  then show ?thesis
    by (intro exI [of _ "round_half_even (x * 100)"] conjI) simp_all
qed

text \<open>A number that fits the 53 bits of the significand is rounded to itself.\<close>

lemma rnd64_Fin:
  assumes "x \<noteq> 0" and "flog2 \<bar>x\<bar> = e" and "x / pow2 (max (e - 52) (- 1074)) = of_int m"
    and "\<bar>x\<bar> < 2 ^ 1024"
  shows "rnd64 x = Fin x"
proof -
  let ?p = "pow2 (max (e - 52) (- 1074))"
  have "round_half_even (x / ?p) = m"
    unfolding assms(3) by (rule round_half_even_of_int)
  then have "of_int (round_half_even (x / ?p)) * ?p = x / ?p * ?p"
    by (simp only: assms(3))
  also have "\<dots> = x"
    using pow2_pos [of "max (e - 52) (- 1074)"] by simp
  finally have "of_int (round_half_even (x / ?p)) * ?p = x" .
  then show ?thesis
    using assms(1,2,4) by (simp add: rnd64_def Let_def abs_if split: if_splits)
qed

lemma rnd64_quarter: "rnd64 (1 / 4) = Fin (1 / 4)"
proof (rule rnd64_Fin)
  show "flog2 \<bar>1 / 4\<bar> = - 2" by code_simp
  show "(1 / 4) / pow2 (max (- 2 - 52) (- 1074)) = of_int (2 ^ 52)"
    by (simp add: pow2_def)
qed simp_all

lemma rnd64_250: "rnd64 250 = Fin 250"
proof (rule rnd64_Fin)
  show "flog2 \<bar>250\<bar> = 7" by code_simp
  show "250 / pow2 (max (7 - 52) (- 1074)) = of_int (250 * 2 ^ 45)"
    by (simp add: pow2_def)
qed simp_all

lemma rnd64_minus_1: "rnd64 (- 1) = Fin (- 1)"
proof (rule rnd64_Fin)
  show "flog2 \<bar>- 1\<bar> = 0" by code_simp
  show "(- 1) / pow2 (max (0 - 52) (- 1074)) = of_int (- (2 ^ 52))"
    by (simp add: pow2_def)
qed simp_all

lemma rnd64_minus_1000: "rnd64 (- 1000) = Fin (- 1000)"
proof (rule rnd64_Fin)
  show "flog2 \<bar>- 1000\<bar> = 9" by code_simp
  show "(- 1000) / pow2 (max (9 - 52) (- 1074)) = of_int (- (1000 * 2 ^ 43))"
    by (simp add: pow2_def)
qed simp_all

text \<open>A quarter of a second is measured as 250.0 milliseconds.\<close>

lemma response_time_quarter: "py_round2 (fmul_1000 (fsub (100 + 1 / 4) 100)) = Fin 250"
proof -
  have "fsub (100 + 1 / 4) 100 = Fin (1 / 4)"
    by (simp add: fsub_def rnd64_quarter)
  then have "fmul_1000 (fsub (100 + 1 / 4) 100) = Fin 250"
    by (simp add: rnd64_250)
  moreover have "round_half_even (250 * 100) = 25000"
    using round_half_even_of_int [of 25000] by simp
  ultimately show ?thesis
    by (simp add: rnd64_250)
qed

lemma response_time_ex_obs:
  "py_round2 (fmul_1000 (fsub (end_time (ex_obs outcome)) (start_time (ex_obs outcome))))
     = Fin 250"
proof -
  have "end_time (ex_obs outcome) = 100 + 1 / 4" and "start_time (ex_obs outcome) = 100"
    by (simp_all add: ex_obs_def)
  then show ?thesis
    by (simp only: response_time_quarter)
qed

text \<open>
  Claim C8, as amended. When the request returns status code 200, the result has status
  \<^verbatim>\<open>up\<close> and its response time is a float. The elapsed time in milliseconds is the
  product that the code computes in binary64 from the two clock readings; when it is
  finite, the response time is the float nearest to a decimal with two digits after the
  point that lies within half a hundredth of it, and when it is an infinity, so is the
  response time. The response time is non-negative when the second reading of the clock
  is not earlier than the first.
\<close>

theorem check_url_up_response_time:
  assumes "get_result ob = Response 200"
  shows "(let r = check_url self ob name url;
              elapsed_ms = fmul_1000 (fsub (end_time ob) (start_time ob))
          in getitem r ''status'' = Inr (PStr ''up'') \<and>
             (\<exists>t. getitem r ''response_time'' = Inr (PFloat t) \<and>
                  (case elapsed_ms of
                     Fin x \<Rightarrow>
                       \<exists>k. t = rnd64 (of_int k / 100) \<and> \<bar>of_int k / 100 - x\<bar> \<le> 1 / 200
                   | PosInf \<Rightarrow> t = PosInf
                   | NegInf \<Rightarrow> t = NegInf) \<and>
                  (start_time ob \<le> end_time ob \<longrightarrow> float_nonneg t)))"
proof -
  let ?ms = "fmul_1000 (fsub (end_time ob) (start_time ob))"
  have "getitem (check_url self ob name url) ''status'' = Inr (PStr ''up'')"
    using getitem_check_url_status_Response [OF assms] by simp
  moreover have
    "getitem (check_url self ob name url) ''response_time'' = Inr (PFloat (py_round2 ?ms))"
    by (rule getitem_check_url_response_time [OF assms])
  moreover have "case ?ms of
       Fin x \<Rightarrow>
         \<exists>k. py_round2 ?ms = rnd64 (of_int k / 100) \<and> \<bar>of_int k / 100 - x\<bar> \<le> 1 / 200
     | PosInf \<Rightarrow> py_round2 ?ms = PosInf
     | NegInf \<Rightarrow> py_round2 ?ms = NegInf"
    using py_round2_Fin by (cases ?ms) simp_all
  moreover have "start_time ob \<le> end_time ob \<longrightarrow> float_nonneg (py_round2 ?ms)"
    by (simp add: fsub_nonneg fmul_1000_nonneg py_round2_nonneg)
  ultimately show ?thesis
    unfolding Let_def by blast
qed

text \<open>
  The claim as stated promises a non-negative response time for every check that gets a
  200. \<^verbatim>\<open>time.time()\<close> is the wall clock, which can be set back between the two
  readings; the response time is then negative.
\<close>

theorem check_url_negative_response_time:
  "get_result ex_obs_clock_back = Response 200 \<and>
   end_time ex_obs_clock_back < start_time ex_obs_clock_back \<and>
   getitem (check_url ex_poller ex_obs_clock_back ''A'' ''http://a'') ''response_time''
     = Inr (PFloat (Fin (- 1000))) \<and>
   \<not> float_nonneg (Fin (- 1000))"
proof -
  have h: "get_result ex_obs_clock_back = Response 200"
    by (simp add: ex_obs_clock_back_def)
  have "fsub (end_time ex_obs_clock_back) (start_time ex_obs_clock_back) = Fin (- 1)"
    by (simp add: ex_obs_clock_back_def fsub_def rnd64_minus_1)
  then have "fmul_1000 (fsub (end_time ex_obs_clock_back) (start_time ex_obs_clock_back))
               = Fin (- 1000)"
    by (simp add: rnd64_minus_1000)
  moreover have "round_half_even (- 1000 * 100) = - 100000"
    using round_half_even_of_int [of "- 100000"] by simp
  ultimately have
    "py_round2 (fmul_1000 (fsub (end_time ex_obs_clock_back) (start_time ex_obs_clock_back)))
       = Fin (- 1000)"
    by (simp add: rnd64_minus_1000)
  then show ?thesis
    using h getitem_check_url_response_time [OF h, of ex_poller "''A''" "''http://a''"]
    by (simp add: ex_obs_clock_back_def)
qed

theorem check_url_up_response_time_witness:
  "get_result (ex_obs (Response 200)) = Response 200 \<and>
   start_time (ex_obs (Response 200)) \<le> end_time (ex_obs (Response 200)) \<and>
   fmul_1000 (fsub (end_time (ex_obs (Response 200))) (start_time (ex_obs (Response 200))))
     = Fin 250 \<and>
   getitem (check_url ex_poller (ex_obs (Response 200)) ''A'' ''http://a'') ''status''
     = Inr (PStr ''up'') \<and>
   (\<exists>t. getitem (check_url ex_poller (ex_obs (Response 200)) ''A'' ''http://a'') ''response_time''
          = Inr (PFloat t) \<and>
        (\<exists>k. t = rnd64 (of_int k / 100) \<and> \<bar>of_int k / 100 - 250\<bar> \<le> (1 / 200 :: rat)) \<and>
        float_nonneg t)"
proof -
  have h: "get_result (ex_obs (Response 200)) = Response 200"
    by (simp add: ex_obs_def)
  have le: "start_time (ex_obs (Response 200)) \<le> end_time (ex_obs (Response 200))"
    by (simp add: ex_obs_def)
  have "fsub (100 + 1 / 4) 100 = Fin (1 / 4)"
    by (simp add: fsub_def rnd64_quarter)
  then have ms:
    "fmul_1000 (fsub (end_time (ex_obs (Response 200))) (start_time (ex_obs (Response 200))))
       = Fin 250"
    by (simp add: ex_obs_def rnd64_250)
  show ?thesis
    using h le ms check_url_up_response_time [OF h, of ex_poller "''A''" "''http://a''"]
    unfolding Let_def ms by simp
qed

section \<open>Timestamps\<close>

lemma is_digit_digit_char: "is_digit (digit_char n)"
  unfolding is_digit_def digit_char_def by (rule nth_mem) simp

lemma t2: "(k::nat) < 10 \<Longrightarrow> k = 0 \<or> k = 1 \<or> k = 2 \<or> k = 3 \<or> k = 4 \<or> k = 5 \<or> k = 6 \<or> k = 7 \<or> k = 8 \<or> k = 9"
  by presburger

lemma digit_val_nth:
  assumes "k < 10"
  shows "digit_val (''0123456789'' ! k) = k"
  using t2 [OF assms] by (elim disjE) (simp_all add: digit_val_def)

lemma digit_val_digit_char: "digit_val (digit_char n) = n mod 10"
  unfolding digit_char_def by (rule digit_val_nth) simp

lemma two_digits_pad2:
  fixes n :: nat
  assumes "n < 100"
  shows "10 * digit_val (digit_char (n div 10)) + digit_val (digit_char n) = n"
proof -
  have "n div 10 < 10"
    using assms by simp
  then have "n div 10 mod 10 = n div 10"
    by simp
  then show ?thesis
    unfolding digit_val_digit_char by simp
qed


lemma isoformat_eq:
  "isoformat t =
     [digit_char (year t div 1000), digit_char (year t div 100), digit_char (year t div 10),
      digit_char (year t), CHR ''-'', digit_char (month t div 10), digit_char (month t),
      CHR ''-'', digit_char (day t div 10), digit_char (day t), CHR ''T'',
      digit_char (hour t div 10), digit_char (hour t), CHR '':'',
      digit_char (minute t div 10), digit_char (minute t), CHR '':'',
      digit_char (second t div 10), digit_char (second t)] @
     (if microsecond t = 0 then [] else CHR ''.'' # pad6 (microsecond t))"
  by (simp add: isoformat_def pad2_def pad4_def)

lemma is_iso8601_isoformat:
  assumes "valid_datetime t"
  shows "is_iso8601 (isoformat t)"
proof -
  have m: "month t < 100" "day t < 100" "hour t < 100" "minute t < 100" "second t < 100"
    using assms by (simp_all add: valid_datetime_def)
  have r: "1 \<le> month t" "month t \<le> 12" "1 \<le> day t" "day t \<le> 31" "hour t < 24"
      "minute t < 60" "second t < 60"
    using assms by (simp_all add: valid_datetime_def)
  have frac: "list_all is_digit (pad6 (microsecond t))"
    by (simp add: pad6_def is_digit_digit_char)
  show ?thesis
    unfolding is_iso8601_def isoformat_eq two_digits_def
    using r frac
    by (simp add: is_digit_digit_char two_digits_pad2 [OF m(1)] two_digits_pad2 [OF m(2)]
        two_digits_pad2 [OF m(3)] two_digits_pad2 [OF m(4)] two_digits_pad2 [OF m(5)] pad6_def)
qed

section \<open>The output file\<close>

lemma check_url_shape:
  "\<exists>s sc rt er.
     check_url self ob name url =
       [(''name'', PStr name), (''url'', PStr url), (''status'', PStr s), (''status_code'', sc),
        (''response_time'', rt), (''error'', er), (''timestamp'', PStr (isoformat (now ob)))] \<and>
     (sc = PNone \<or> (\<exists>i. sc = PInt i)) \<and>
     (rt = PNone \<or> (\<exists>x. rt = PFloat x)) \<and>
     (er = PNone \<or> (\<exists>m. er = PStr m))"
  unfolding check_url_def
  by (cases "get_result ob") (simp_all add: setitem_def Let_def)

lemma collect_result_shape:
  "\<exists>s sc rt er ts.
     collect_result w (submit self w name url, name, url) =
       [(''name'', PStr name), (''url'', PStr url), (''status'', PStr s), (''status_code'', sc),
        (''response_time'', rt), (''error'', er), (''timestamp'', PStr ts)] \<and>
     (sc = PNone \<or> (\<exists>i. sc = PInt i)) \<and>
     (rt = PNone \<or> (\<exists>x. rt = PFloat x)) \<and>
     (er = PNone \<or> (\<exists>m. er = PStr m)) \<and>
     (ts = isoformat (now (observe w name url)) \<or> ts = isoformat (collect_now w name url))"
proof (cases "future_error w name url")
  case None
  then show ?thesis
    using check_url_shape [of self "observe w name url" name url]
    by (simp add: submit_def) blast
next
  case (Some e)
  then show ?thesis
    by (simp add: submit_def)
qed

lemma poll_urls_results_shape:
  assumes "poll_urls self w urls = Inr results" and "r \<in> set results"
  shows "\<exists>name url s sc rt er ts.
     r = [(''name'', PStr name), (''url'', PStr url), (''status'', PStr s), (''status_code'', sc),
          (''response_time'', rt), (''error'', er), (''timestamp'', PStr ts)] \<and>
     (sc = PNone \<or> (\<exists>i. sc = PInt i)) \<and>
     (rt = PNone \<or> (\<exists>x. rt = PFloat x)) \<and>
     (er = PNone \<or> (\<exists>m. er = PStr m)) \<and>
     (ts = isoformat (now (observe w name url)) \<or> ts = isoformat (collect_now w name url))"
proof -
  have pos: "0 < max_workers self"
    using assms(1) by (simp add: poll_urls_def split: if_splits)
  from poll_urls_result [OF pos, of w urls] assms(1)
  have "mset results =
          mset (map (\<lambda>(name, url). collect_result w (submit self w name url, name, url)) urls)"
    by simp
  then have "set results =
          set (map (\<lambda>(name, url). collect_result w (submit self w name url, name, url)) urls)"
    by (rule mset_eq_setD)
  with assms(2) obtain name url where
    "r = collect_result w (submit self w name url, name, url)"
    by auto
  then show ?thesis
    using collect_result_shape [of w self name url] by blast
qed

lemma written_poll_print_save:
  assumes "written (fst (poll_print_save w urls_dict)) = Some (file, content)"
  shows "\<exists>results. poll_urls \<lparr>timeout = 10, max_workers = 5\<rparr> w urls_dict = Inr results \<and>
           content = json_dump results"
  using assms
  by (simp add: poll_print_save_def Let_def split: sum.splits option.splits)

lemma written_script:
  assumes "written (fst (script w)) = Some (file, content)"
  shows "\<exists>urls_dict results.
           poll_urls \<lparr>timeout = 10, max_workers = 5\<rparr> w urls_dict = Inr results \<and>
           content = json_dump results"
proof (cases "1 < length (argv w)")
  case True
  with assms obtain urls_dict where
    "written (fst (poll_print_save w urls_dict)) = Some (file, content)"
    by (auto simp: script_def Let_def split: prod.splits ending.splits sum.splits)
  then show ?thesis
    using written_poll_print_save by blast
next
  case False
  with assms obtain urls_dict where
    "written (fst (poll_print_save w urls_dict)) = Some (file, content)"
    by (auto simp: script_def main_def Let_def split: prod.splits ending.splits sum.splits)
  then show ?thesis
    using written_poll_print_save by blast
qed

text \<open>
  Claim C6, as amended. Every object of the array written to the output file has exactly
  the fields \<^verbatim>\<open>name\<close>, \<^verbatim>\<open>url\<close>, \<^verbatim>\<open>status\<close>, \<^verbatim>\<open>status_code\<close>, \<^verbatim>\<open>response_time\<close>,
  \<^verbatim>\<open>error\<close> and \<^verbatim>\<open>timestamp\<close>, in this order; \<^verbatim>\<open>name\<close>, \<^verbatim>\<open>url\<close> and \<^verbatim>\<open>status\<close> are
  strings, \<^verbatim>\<open>status_code\<close> is null or an integer, \<^verbatim>\<open>response_time\<close> is null or a float,
  \<^verbatim>\<open>error\<close> is null or a string, and \<^verbatim>\<open>timestamp\<close> is a string of the ISO 8601 shape.
  The clock readings are taken to be \<^verbatim>\<open>datetime\<close> objects, within their ranges.
\<close>

theorem written_results_fields:
  assumes "\<forall>name url. valid_datetime (now (observe w name url)) \<and>
                      valid_datetime (collect_now w name url)"
    and "written (fst (script w)) = Some (file, content)"
  shows "\<exists>objects. content = JArray objects \<and>
           (\<forall>obj \<in> set objects.
              \<exists>name url status status_code response_time error timestamp.
                obj = JObject
                        [(''name'', JString name),
                         (''url'', JString url),
                         (''status'', JString status),
                         (''status_code'', status_code),
                         (''response_time'', response_time),
                         (''error'', error),
                         (''timestamp'', JString timestamp)] \<and>
                (status_code = JNull \<or> (\<exists>i. status_code = JInt i)) \<and>
                (response_time = JNull \<or> (\<exists>x. response_time = JFloat x)) \<and>
                (error = JNull \<or> (\<exists>m. error = JString m)) \<and>
                is_iso8601 timestamp)"
proof -
  from written_script [OF assms(2)] obtain urls_dict results where
    p: "poll_urls \<lparr>timeout = 10, max_workers = 5\<rparr> w urls_dict = Inr results"
    and c: "content = json_dump results"
    by blast
  have "\<exists>name url status status_code response_time error timestamp.
                json_of_dict r = JObject
                        [(''name'', JString name),
                         (''url'', JString url),
                         (''status'', JString status),
                         (''status_code'', status_code),
                         (''response_time'', response_time),
                         (''error'', error),
                         (''timestamp'', JString timestamp)] \<and>
                (status_code = JNull \<or> (\<exists>i. status_code = JInt i)) \<and>
                (response_time = JNull \<or> (\<exists>x. response_time = JFloat x)) \<and>
                (error = JNull \<or> (\<exists>m. error = JString m)) \<and>
                is_iso8601 timestamp" if "r \<in> set results" for r
  proof -
    from poll_urls_results_shape [OF p that] obtain name url s sc rt er ts where
      r: "r = [(''name'', PStr name), (''url'', PStr url), (''status'', PStr s),
               (''status_code'', sc), (''response_time'', rt), (''error'', er),
               (''timestamp'', PStr ts)]"
      and sc: "sc = PNone \<or> (\<exists>i. sc = PInt i)"
      and rt: "rt = PNone \<or> (\<exists>x. rt = PFloat x)"
      and er: "er = PNone \<or> (\<exists>m. er = PStr m)"
      and ts: "ts = isoformat (now (observe w name url)) \<or> ts = isoformat (collect_now w name url)"
      by blast
    have "is_iso8601 ts"
      using ts assms(1) is_iso8601_isoformat by blast
    moreover have "json_of_val sc = JNull \<or> (\<exists>i. json_of_val sc = JInt i)"
      using sc by auto
    moreover have "json_of_val rt = JNull \<or> (\<exists>x. json_of_val rt = JFloat x)"
      using rt by auto
    moreover have "json_of_val er = JNull \<or> (\<exists>m. json_of_val er = JString m)"
      using er by auto
    moreover have "json_of_dict r = JObject
                        [(''name'', JString name),
                         (''url'', JString url),
                         (''status'', JString s),
                         (''status_code'', json_of_val sc),
                         (''response_time'', json_of_val rt),
                         (''error'', json_of_val er),
                         (''timestamp'', JString ts)]"
      by (simp add: r json_of_dict_def)
    ultimately show ?thesis by blast
  qed
  then show ?thesis
    unfolding c json_dump_def by auto
qed

section \<open>Properties of \<open>print_results\<close>\<close>

lemma symbol_of_not_space: "\<exists>c cs. symbol_of v = c # cs \<and> c \<noteq> CHR '' ''"
proof (cases v)
  case (PStr s)
  show ?thesis
  proof (cases "map_of status_symbols s")
    case None
    with PStr show ?thesis by (simp add: symbol_of_def)
  next
    case (Some symbol)
    then have "(s, symbol) \<in> set status_symbols"
      by (rule map_of_SomeD)
    then have "\<exists>c cs. symbol = c # cs \<and> c \<noteq> CHR '' ''"
      unfolding status_symbols_def by auto
    with PStr Some show ?thesis by (simp add: symbol_of_def)
  qed
qed (simp_all add: symbol_of_def)

lemma lookup_then_None:
  assumes "lookup_then d k f = (out, None)"
  obtains v where "getitem d k = Inr v" and "f v = (out, None)"
  using assms by (cases "getitem d k") (simp_all add: lookup_then_def)

lemma then_print_None:
  assumes "then_print a b = (out, None)"
  obtains xs ys where "a = (xs, None)" and "b = (ys, None)" and "out = xs @ ys"
  using assms by (cases a; cases b; cases "snd a") (auto simp add: then_print_def)

lemma then_print_lit_None:
  assumes "then_print (xs, None) b = (out, None)"
  obtains ys where "out = xs @ ys" and "b = (ys, None)"
  using assms by (cases b) (auto simp add: then_print_def)

lemma detail_step:
  assumes "lookup_then r k (\<lambda>v. (if truthy v then [f v] else [], None)) = (out, None)"
  obtains v where "getitem r k = Inr v" and "out = (if truthy v then [f v] else [])"
  using assms by (elim lookup_then_None) auto

lemma print_result_None:
  assumes "print_result True r = (out, None)"
  obtains status name30 url50 sc rt er where
    "getitem r ''status_code'' = Inr sc" and
    "getitem r ''response_time'' = Inr rt" and
    "getitem r ''error'' = Inr er" and
    "out = [symbol_of status @ '' '' @ name30 @ '' | '' @ url50] @
           (if truthy sc then [''   Status Code: '' @ py_str sc] else []) @
           (if truthy rt then [''   Response Time: '' @ py_str rt @ ''ms''] else []) @
           (if truthy er then [''   Error: '' @ py_str er] else []) @
           [[]]"
proof -
  let ?details =
    "then_print
       (lookup_then r ''status_code'' (\<lambda>v.
          (if truthy v then [''   Status Code: '' @ py_str v] else [], None)))
       (then_print
          (lookup_then r ''response_time'' (\<lambda>v.
             (if truthy v then [''   Response Time: '' @ py_str v @ ''ms''] else [], None)))
          (then_print
             (lookup_then r ''error'' (\<lambda>v.
                (if truthy v then [''   Error: '' @ py_str v] else [], None)))
             ([[]], None)))"
  have eq: "print_result True r =
      lookup_then r ''status'' (\<lambda>status.
        lookup_then r ''name'' (\<lambda>name.
          case format_left 30 name of
            Inl e \<Rightarrow> ([], Some e)
          | Inr name30 \<Rightarrow>
              lookup_then r ''url'' (\<lambda>url.
                case format_left 50 url of
                  Inl e \<Rightarrow> ([], Some e)
                | Inr url50 \<Rightarrow>
                    then_print ([symbol_of status @ '' '' @ name30 @ '' | '' @ url50], None)
                      ?details)))"
    unfolding print_result_def Let_def if_True ..
  from assms [unfolded eq] obtain status name where
    "(case format_left 30 name of
        Inl e \<Rightarrow> ([], Some e)
      | Inr name30 \<Rightarrow>
          lookup_then r ''url'' (\<lambda>url.
            case format_left 50 url of
              Inl e \<Rightarrow> ([], Some e)
            | Inr url50 \<Rightarrow>
                then_print ([symbol_of status @ '' '' @ name30 @ '' | '' @ url50], None)
                  ?details)) = (out, None)"
    by (elim lookup_then_None)
  then obtain name30 where
    "lookup_then r ''url'' (\<lambda>url.
       case format_left 50 url of
         Inl e \<Rightarrow> ([], Some e)
       | Inr url50 \<Rightarrow>
           then_print ([symbol_of status @ '' '' @ name30 @ '' | '' @ url50], None)
             ?details) = (out, None)"
    by (cases "format_left 30 name") simp_all
  then obtain url where
    "(case format_left 50 url of
        Inl e \<Rightarrow> ([], Some e)
      | Inr url50 \<Rightarrow>
          then_print ([symbol_of status @ '' '' @ name30 @ '' | '' @ url50], None)
            ?details) = (out, None)"
    by (elim lookup_then_None)
  then obtain url50 where
    "then_print ([symbol_of status @ '' '' @ name30 @ '' | '' @ url50], None) ?details
       = (out, None)"
    by (cases "format_left 50 url") simp_all
  then obtain ds where
    out: "out = [symbol_of status @ '' '' @ name30 @ '' | '' @ url50] @ ds"
    and det: "?details = (ds, None)"
    by (rule then_print_lit_None)
  from det obtain d1 ds1 where
    d1: "lookup_then r ''status_code'' (\<lambda>v.
          (if truthy v then [''   Status Code: '' @ py_str v] else [], None)) = (d1, None)"
    and det1: "then_print
          (lookup_then r ''response_time'' (\<lambda>v.
             (if truthy v then [''   Response Time: '' @ py_str v @ ''ms''] else [], None)))
          (then_print
             (lookup_then r ''error'' (\<lambda>v.
                (if truthy v then [''   Error: '' @ py_str v] else [], None)))
             ([[]], None)) = (ds1, None)"
    and ds: "ds = d1 @ ds1"
    by (rule then_print_None)
  from det1 obtain d2 ds2 where
    d2: "lookup_then r ''response_time'' (\<lambda>v.
             (if truthy v then [''   Response Time: '' @ py_str v @ ''ms''] else [], None))
          = (d2, None)"
    and det2: "then_print
             (lookup_then r ''error'' (\<lambda>v.
                (if truthy v then [''   Error: '' @ py_str v] else [], None)))
             ([[]], None) = (ds2, None)"
    and ds1: "ds1 = d2 @ ds2"
    by (rule then_print_None)
  from det2 obtain d3 ds3 where
    d3: "lookup_then r ''error'' (\<lambda>v.
                (if truthy v then [''   Error: '' @ py_str v] else [], None)) = (d3, None)"
    and "([[]], None) = (ds3, None :: py_error option)"
    and "ds2 = d3 @ ds3"
    by (rule then_print_None)
  then have ds2: "ds2 = d3 @ [[]]"
    by simp
  from d1 obtain sc where sc: "getitem r ''status_code'' = Inr sc"
    "d1 = (if truthy sc then [''   Status Code: '' @ py_str sc] else [])"
    by (rule detail_step)
  from d2 obtain rt where rt: "getitem r ''response_time'' = Inr rt"
    "d2 = (if truthy rt then [''   Response Time: '' @ py_str rt @ ''ms''] else [])"
    by (rule detail_step)
  from d3 obtain er where er: "getitem r ''error'' = Inr er"
    "d3 = (if truthy er then [''   Error: '' @ py_str er] else [])"
    by (rule detail_step)
  show ?thesis
    by (rule that [OF sc(1) rt(1) er(1)]) (simp only: out ds ds1 ds2 sc(2) rt(2) er(2))
qed

lemma print_result_detail:
  assumes "print_result True r = (out, None)"
  shows "((\<exists>l \<in> set out. prefix ''   Status Code: '' l) \<longleftrightarrow>
            (\<exists>v. getitem r ''status_code'' = Inr v \<and> truthy v)) \<and>
         ((\<exists>l \<in> set out. prefix ''   Response Time: '' l) \<longleftrightarrow>
            (\<exists>v. getitem r ''response_time'' = Inr v \<and> truthy v)) \<and>
         ((\<exists>l \<in> set out. prefix ''   Error: '' l) \<longleftrightarrow>
            (\<exists>v. getitem r ''error'' = Inr v \<and> truthy v))"
proof -
  from assms obtain status name30 url50 sc rt er where
    g: "getitem r ''status_code'' = Inr sc" "getitem r ''response_time'' = Inr rt"
       "getitem r ''error'' = Inr er"
    and out: "out = [symbol_of status @ '' '' @ name30 @ '' | '' @ url50] @
                 (if truthy sc then [''   Status Code: '' @ py_str sc] else []) @
                 (if truthy rt then [''   Response Time: '' @ py_str rt @ ''ms''] else []) @
                 (if truthy er then [''   Error: '' @ py_str er] else []) @
                 [[]]"
    by (rule print_result_None)
  obtain c cs where sym: "symbol_of status = c # cs" "c \<noteq> CHR '' ''"
    using symbol_of_not_space by blast
  show ?thesis
    unfolding out g
    by (cases "truthy sc"; cases "truthy rt"; cases "truthy er")
       (simp_all add: sym sym(2) [symmetric])
qed

lemma print_result_ok:
  assumes "getitem r ''status'' = Inr status"
    and "getitem r ''name'' = Inr (PStr n)"
    and "getitem r ''url'' = Inr (PStr u)"
    and "getitem r ''status_code'' = Inr sc"
    and "getitem r ''response_time'' = Inr rt"
    and "getitem r ''error'' = Inr er"
  shows "snd (print_result show_details r) = None"
  by (simp add: print_result_def lookup_then_def then_print_def Let_def assms)

lemma up_count_ok:
  assumes "\<forall>r \<in> set results. \<exists>s. getitem r ''status'' = Inr s"
  shows "\<exists>n. up_count results = Inr n"
  using assms by (induction results) auto

lemma print_each_ok:
  assumes "\<forall>r \<in> set results. snd (print_result show_details r) = None"
  shows "snd (print_each show_details results) = None"
  using assms by (induction results) (simp_all add: then_print_def)

lemma print_results_ok:
  assumes "\<forall>r \<in> set results. \<exists>s. getitem r ''status'' = Inr s"
    and "\<forall>r \<in> set results. snd (print_result show_details r) = None"
  shows "snd (print_results w results show_details) = None"
proof -
  from up_count_ok [OF assms(1)] obtain n where "up_count results = Inr n"
    by blast
  then show ?thesis
    using print_each_ok [OF assms(2)]
    by (simp add: print_results_def then_print_def)
qed

lemma print_each_None:
  assumes "print_each show_details results = (out, None)"
  shows "out = concat (map (\<lambda>r. fst (print_result show_details r)) results) \<and>
         (\<forall>r \<in> set results. snd (print_result show_details r) = None)"
  using assms
proof (induction results arbitrary: out)
  case Nil
  then show ?case by simp
next
  case (Cons r results)
  from Cons.prems have
    "then_print (print_result show_details r) (print_each show_details results) = (out, None)"
    by simp
  then obtain xs ys where
    a: "print_result show_details r = (xs, None)"
    and b: "print_each show_details results = (ys, None)"
    and c: "out = xs @ ys"
    by (rule then_print_None)
  from Cons.IH [OF b] a c show ?case
    by simp
qed

lemma no_indent_replicate: "\<not> prefix ''   '' (replicate n (CHR ''=''))"
  by (cases n) simp_all

lemma print_results_None:
  assumes "print_results w results show_details = (out, None)"
  obtains header where
    "out = header @ concat (map (\<lambda>r. fst (print_result show_details r)) results)" and
    "\<not> (\<exists>l \<in> set header. prefix ''   '' l)" and
    "\<forall>r \<in> set results. snd (print_result show_details r) = None"
proof -
  let ?h = "[[CHR 0x0A] @ replicate 80 (CHR ''=''),
             ''URL POLLING RESULTS - '' @ strftime_report (report_now w),
             replicate 80 (CHR ''='')]"
  from assms obtain ys where
    out: "out = ?h @ ys"
    and rest: "(case up_count results of
          Inl e \<Rightarrow> ([], Some e)
        | Inr up \<Rightarrow>
            then_print
              ([''Summary: '' @ str_nat up @ ''/'' @ str_nat (length results) @
                  '' URLs are responding'',
                []], None)
              (print_each show_details results)) = (ys, None)"
    unfolding print_results_def by (rule then_print_lit_None)
  from rest obtain up where
    "then_print
              ([''Summary: '' @ str_nat up @ ''/'' @ str_nat (length results) @
                  '' URLs are responding'',
                []], None)
              (print_each show_details results) = (ys, None)"
    by (cases "up_count results") simp_all
  then obtain zs where
    ys: "ys = [''Summary: '' @ str_nat up @ ''/'' @ str_nat (length results) @
                  '' URLs are responding'', []] @ zs"
    and each: "print_each show_details results = (zs, None)"
    by (rule then_print_lit_None)
  let ?header = "?h @ [''Summary: '' @ str_nat up @ ''/'' @ str_nat (length results) @
                  '' URLs are responding'', []]"
  have "out = ?header @ concat (map (\<lambda>r. fst (print_result show_details r)) results)"
    using print_each_None [OF each] by (simp add: out ys)
  moreover have "\<not> (\<exists>l \<in> set ?header. prefix ''   '' l)"
    by (simp add: no_indent_replicate)
  moreover have "\<forall>r \<in> set results. snd (print_result show_details r) = None"
    using print_each_None [OF each] by simp
  ultimately show ?thesis
    by (rule that)
qed

text \<open>
  Claim C10. When \<open>print_results\<close> with details enabled prints to its end, its output is a
  header, none of whose lines is indented, followed by the lines of each result in turn.
  The lines of a result contain a status-code line exactly when \<^verbatim>\<open>status_code\<close> is truthy,
  a response-time line exactly when \<^verbatim>\<open>response_time\<close> is truthy, and an error line exactly
  when \<^verbatim>\<open>error\<close> is truthy. So a status code 0 and a response time 0.0, which are not
  \<^verbatim>\<open>None\<close>, produce no line.
\<close>

theorem print_results_detail_lines:
  assumes "print_results w results True = (out, None)"
  shows "\<exists>header.
           out = header @ concat (map (\<lambda>r. fst (print_result True r)) results) \<and>
           \<not> (\<exists>l \<in> set header. prefix ''   '' l) \<and>
           (\<forall>r \<in> set results.
              ((\<exists>l \<in> set (fst (print_result True r)). prefix ''   Status Code: '' l) \<longleftrightarrow>
                 (\<exists>v. getitem r ''status_code'' = Inr v \<and> truthy v)) \<and>
              ((\<exists>l \<in> set (fst (print_result True r)). prefix ''   Response Time: '' l) \<longleftrightarrow>
                 (\<exists>v. getitem r ''response_time'' = Inr v \<and> truthy v)) \<and>
              ((\<exists>l \<in> set (fst (print_result True r)). prefix ''   Error: '' l) \<longleftrightarrow>
                 (\<exists>v. getitem r ''error'' = Inr v \<and> truthy v)) \<and>
              (getitem r ''status_code'' = Inr (PInt 0) \<longrightarrow>
                 \<not> (\<exists>l \<in> set (fst (print_result True r)). prefix ''   Status Code: '' l)) \<and>
              (getitem r ''response_time'' = Inr (PFloat (Fin 0)) \<longrightarrow>
                 \<not> (\<exists>l \<in> set (fst (print_result True r)). prefix ''   Response Time: '' l)))"
proof -
  from assms obtain header where
    h: "out = header @ concat (map (\<lambda>r. fst (print_result True r)) results)"
       "\<not> (\<exists>l \<in> set header. prefix ''   '' l)"
    and ok: "\<forall>r \<in> set results. snd (print_result True r) = None"
    by (rule print_results_None)
  have per: "((\<exists>l \<in> set (fst (print_result True r)). prefix ''   Status Code: '' l) \<longleftrightarrow>
                 (\<exists>v. getitem r ''status_code'' = Inr v \<and> truthy v)) \<and>
              ((\<exists>l \<in> set (fst (print_result True r)). prefix ''   Response Time: '' l) \<longleftrightarrow>
                 (\<exists>v. getitem r ''response_time'' = Inr v \<and> truthy v)) \<and>
              ((\<exists>l \<in> set (fst (print_result True r)). prefix ''   Error: '' l) \<longleftrightarrow>
                 (\<exists>v. getitem r ''error'' = Inr v \<and> truthy v)) \<and>
              (getitem r ''status_code'' = Inr (PInt 0) \<longrightarrow>
                 \<not> (\<exists>l \<in> set (fst (print_result True r)). prefix ''   Status Code: '' l)) \<and>
              (getitem r ''response_time'' = Inr (PFloat (Fin 0)) \<longrightarrow>
                 \<not> (\<exists>l \<in> set (fst (print_result True r)). prefix ''   Response Time: '' l))"
    if "r \<in> set results" for r
  proof -
    from ok that have "snd (print_result True r) = None"
      by (rule bspec)
    then have "print_result True r = (fst (print_result True r), None)"
      by (cases "print_result True r") simp
    from print_result_detail [OF this] have
      "(\<exists>l \<in> set (fst (print_result True r)). prefix ''   Status Code: '' l) \<longleftrightarrow>
         (\<exists>v. getitem r ''status_code'' = Inr v \<and> truthy v)"
      "(\<exists>l \<in> set (fst (print_result True r)). prefix ''   Response Time: '' l) \<longleftrightarrow>
         (\<exists>v. getitem r ''response_time'' = Inr v \<and> truthy v)"
      "(\<exists>l \<in> set (fst (print_result True r)). prefix ''   Error: '' l) \<longleftrightarrow>
         (\<exists>v. getitem r ''error'' = Inr v \<and> truthy v)"
      by blast+
    moreover have "getitem r ''status_code'' = Inr (PInt 0) \<longrightarrow>
         \<not> (\<exists>v. getitem r ''status_code'' = Inr v \<and> truthy v)"
      by auto
    moreover have "getitem r ''response_time'' = Inr (PFloat (Fin 0)) \<longrightarrow>
         \<not> (\<exists>v. getitem r ''response_time'' = Inr v \<and> truthy v)"
      by auto
    ultimately show ?thesis
      by blast
  qed
  then have "\<forall>r \<in> set results.
              ((\<exists>l \<in> set (fst (print_result True r)). prefix ''   Status Code: '' l) \<longleftrightarrow>
                 (\<exists>v. getitem r ''status_code'' = Inr v \<and> truthy v)) \<and>
              ((\<exists>l \<in> set (fst (print_result True r)). prefix ''   Response Time: '' l) \<longleftrightarrow>
                 (\<exists>v. getitem r ''response_time'' = Inr v \<and> truthy v)) \<and>
              ((\<exists>l \<in> set (fst (print_result True r)). prefix ''   Error: '' l) \<longleftrightarrow>
                 (\<exists>v. getitem r ''error'' = Inr v \<and> truthy v)) \<and>
              (getitem r ''status_code'' = Inr (PInt 0) \<longrightarrow>
                 \<not> (\<exists>l \<in> set (fst (print_result True r)). prefix ''   Status Code: '' l)) \<and>
              (getitem r ''response_time'' = Inr (PFloat (Fin 0)) \<longrightarrow>
                 \<not> (\<exists>l \<in> set (fst (print_result True r)). prefix ''   Response Time: '' l))"
    by (rule ballI)
  with h show ?thesis
    by (intro exI [of _ header] conjI)
qed

theorem print_results_detail_lines_witness:
  "\<exists>out. print_results ex_world [ex_result_zero, ex_result_404] True = (out, None) \<and>
     getitem ex_result_zero ''status_code'' = Inr (PInt 0) \<and>
     getitem ex_result_zero ''response_time'' = Inr (PFloat (Fin 0)) \<and>
     \<not> (\<exists>l \<in> set (fst (print_result True ex_result_zero)). prefix ''   Status Code: '' l) \<and>
     \<not> (\<exists>l \<in> set (fst (print_result True ex_result_zero)). prefix ''   Response Time: '' l) \<and>
     (\<exists>l \<in> set (fst (print_result True ex_result_404)). prefix ''   Status Code: '' l) \<and>
     (\<exists>l \<in> set (fst (print_result True ex_result_404)). prefix ''   Response Time: '' l) \<and>
     \<not> (\<exists>l \<in> set (fst (print_result True ex_result_404)). prefix ''   Error: '' l)"
proof -
  have z: "getitem ex_result_zero ''status'' = Inr (PStr ''unknown'')"
    "getitem ex_result_zero ''name'' = Inr (PStr ''idle'')"
    "getitem ex_result_zero ''url'' = Inr (PStr ''http://idle.example'')"
    "getitem ex_result_zero ''status_code'' = Inr (PInt 0)"
    "getitem ex_result_zero ''response_time'' = Inr (PFloat (Fin 0))"
    "getitem ex_result_zero ''error'' = Inr PNone"
    by (simp_all add: ex_result_zero_def getitem_def)
  have a: "getitem ex_result_404 ''status'' = Inr (PStr ''client_error'')"
    "getitem ex_result_404 ''name'' = Inr (PStr ''alpha'')"
    "getitem ex_result_404 ''url'' = Inr (PStr ''http://a/missing'')"
    "getitem ex_result_404 ''status_code'' = Inr (PInt 404)"
    "getitem ex_result_404 ''response_time'' = Inr (PFloat (Fin 250))"
    "getitem ex_result_404 ''error'' = Inr PNone"
    by (simp_all add: ex_result_404_def getitem_def)
  have "snd (print_results ex_world [ex_result_zero, ex_result_404] True) = None"
    by (rule print_results_ok) (simp_all add: z a print_result_ok [OF z] print_result_ok [OF a])
  then obtain out where
    out: "print_results ex_world [ex_result_zero, ex_result_404] True = (out, None)"
    by (cases "print_results ex_world [ex_result_zero, ex_result_404] True") simp
  from print_results_detail_lines [OF out] have
    d: "\<forall>r \<in> set [ex_result_zero, ex_result_404].
              ((\<exists>l \<in> set (fst (print_result True r)). prefix ''   Status Code: '' l) \<longleftrightarrow>
                 (\<exists>v. getitem r ''status_code'' = Inr v \<and> truthy v)) \<and>
              ((\<exists>l \<in> set (fst (print_result True r)). prefix ''   Response Time: '' l) \<longleftrightarrow>
                 (\<exists>v. getitem r ''response_time'' = Inr v \<and> truthy v)) \<and>
              ((\<exists>l \<in> set (fst (print_result True r)). prefix ''   Error: '' l) \<longleftrightarrow>
                 (\<exists>v. getitem r ''error'' = Inr v \<and> truthy v)) \<and>
              (getitem r ''status_code'' = Inr (PInt 0) \<longrightarrow>
                 \<not> (\<exists>l \<in> set (fst (print_result True r)). prefix ''   Status Code: '' l)) \<and>
              (getitem r ''response_time'' = Inr (PFloat (Fin 0)) \<longrightarrow>
                 \<not> (\<exists>l \<in> set (fst (print_result True r)). prefix ''   Response Time: '' l))"
    by (elim exE conjE)
  have dz: "\<not> (\<exists>l \<in> set (fst (print_result True ex_result_zero)). prefix ''   Status Code: '' l)"
    "\<not> (\<exists>l \<in> set (fst (print_result True ex_result_zero)). prefix ''   Response Time: '' l)"
    using bspec [OF d, of ex_result_zero] z(4,5) by simp_all
  have da: "\<exists>l \<in> set (fst (print_result True ex_result_404)). prefix ''   Status Code: '' l"
    "\<exists>l \<in> set (fst (print_result True ex_result_404)). prefix ''   Response Time: '' l"
    "\<not> (\<exists>l \<in> set (fst (print_result True ex_result_404)). prefix ''   Error: '' l)"
    using bspec [OF d, of ex_result_404] by (simp_all add: a)
  show ?thesis
    by (rule exI [of _ out]) (intro conjI out z(4) z(5) dz da)
qed

section \<open>The script and its input file\<close>

lemma script_FileNotFoundError:
  assumes "1 < length (argv w)" and "read_file w (argv w ! 1) = FileNotFoundError"
  shows "script w =
           (\<lparr>stdout = [Line ((''Error: File '' @ [CHR 0x27]) @ (argv w ! 1) @
                               ([CHR 0x27] @ '' not found''))],
             checked = [], written = None\<rparr>, 1)"
  using assms by (simp add: script_def load_urls_from_file_def)

lemma script_JSONDecodeError:
  assumes "1 < length (argv w)" and "read_file w (argv w ! 1) = JSONDecodeError"
  shows "script w =
           (\<lparr>stdout = [Line ((''Error: Invalid JSON in file '' @ [CHR 0x27]) @ (argv w ! 1) @
                               [CHR 0x27])],
             checked = [], written = None\<rparr>, 1)"
  using assms by (simp add: script_def load_urls_from_file_def)

text \<open>
  Claim C7. When the script is started with a file argument and the file is missing or is
  not valid JSON, the program prints one line, a diagnostic that contains the name of the
  file, and ends with a non-zero exit status (it is 1); no endpoint is handed to the poller
  and no output file is written.
\<close>

theorem script_input_file_error:
  assumes "1 < length (argv w)"
    and "read_file w (argv w ! 1) = FileNotFoundError \<or>
         read_file w (argv w ! 1) = JSONDecodeError"
  shows "snd (script w) \<noteq> 0 \<and>
         checked (fst (script w)) = [] \<and>
         written (fst (script w)) = None \<and>
         (\<exists>msg. stdout (fst (script w)) = [Line msg] \<and> sublist (argv w ! 1) msg)"
  using assms(2)
proof
  assume "read_file w (argv w ! 1) = FileNotFoundError"
  from script_FileNotFoundError [OF assms(1) this] show ?thesis
    using sublist_appendI [of "argv w ! 1" "''Error: File '' @ [CHR 0x27]"
        "[CHR 0x27] @ '' not found''"]
    by (simp del: append.simps append_assoc)
next
  assume "read_file w (argv w ! 1) = JSONDecodeError"
  from script_JSONDecodeError [OF assms(1) this] show ?thesis
    using sublist_appendI [of "argv w ! 1" "''Error: Invalid JSON in file '' @ [CHR 0x27]"
        "[CHR 0x27]"]
    by (simp del: append.simps append_assoc)
qed

theorem script_input_file_error_witness:
  "1 < length (argv ex_world_missing) \<and>
   read_file ex_world_missing (argv ex_world_missing ! 1) = FileNotFoundError \<and>
   argv ex_world_missing ! 1 = ''missing.json'' \<and>
   snd (script ex_world_missing) \<noteq> 0 \<and>
   checked (fst (script ex_world_missing)) = [] \<and>
   (\<exists>msg. stdout (fst (script ex_world_missing)) = [Line msg] \<and> sublist ''missing.json'' msg) \<and>
   1 < length (argv ex_world_malformed) \<and>
   read_file ex_world_malformed (argv ex_world_malformed ! 1) = JSONDecodeError \<and>
   argv ex_world_malformed ! 1 = ''broken.json'' \<and>
   snd (script ex_world_malformed) \<noteq> 0 \<and>
   checked (fst (script ex_world_malformed)) = [] \<and>
   (\<exists>msg. stdout (fst (script ex_world_malformed)) = [Line msg] \<and> sublist ''broken.json'' msg)"
proof -
  have a: "1 < length (argv ex_world_missing)"
    "read_file ex_world_missing (argv ex_world_missing ! 1) = FileNotFoundError"
    "argv ex_world_missing ! 1 = ''missing.json''"
    by (simp_all add: ex_world_missing_def ex_world_def)
  have b: "1 < length (argv ex_world_malformed)"
    "read_file ex_world_malformed (argv ex_world_malformed ! 1) = JSONDecodeError"
    "argv ex_world_malformed ! 1 = ''broken.json''"
    by (simp_all add: ex_world_malformed_def ex_world_def)
  from script_input_file_error [OF a(1) disjI1 [OF a(2)]]
  have ra: "snd (script ex_world_missing) \<noteq> 0"
    "checked (fst (script ex_world_missing)) = []"
    "\<exists>msg. stdout (fst (script ex_world_missing)) = [Line msg] \<and> sublist ''missing.json'' msg"
    unfolding a(3) by blast+
  from script_input_file_error [OF b(1) disjI2 [OF b(2)]]
  have rb: "snd (script ex_world_malformed) \<noteq> 0"
    "checked (fst (script ex_world_malformed)) = []"
    "\<exists>msg. stdout (fst (script ex_world_malformed)) = [Line msg] \<and> sublist ''broken.json'' msg"
    unfolding b(3) by blast+
  show ?thesis
    by (intro conjI a b ra rb)
qed

section \<open>Runs of the script\<close>

lemma print_results_poll_urls_ok:
  assumes "poll_urls self w urls = Inr results"
  shows "snd (print_results w' results show_details) = None"
proof (rule print_results_ok)
  have shape: "\<exists>n u s sc rt er.
      getitem r ''status'' = Inr s \<and> getitem r ''name'' = Inr (PStr n) \<and>
      getitem r ''url'' = Inr (PStr u) \<and> getitem r ''status_code'' = Inr sc \<and>
      getitem r ''response_time'' = Inr rt \<and> getitem r ''error'' = Inr er"
    if "r \<in> set results" for r
  proof -
    from poll_urls_results_shape [OF assms that] obtain name url s sc rt er ts where
      "r = [(''name'', PStr name), (''url'', PStr url), (''status'', PStr s),
            (''status_code'', sc), (''response_time'', rt), (''error'', er),
            (''timestamp'', PStr ts)]"
      by blast
    then show ?thesis
      by (simp add: getitem_def)
  qed
  show "\<forall>r \<in> set results. \<exists>s. getitem r ''status'' = Inr s"
    using shape by blast
  show "\<forall>r \<in> set results. snd (print_result show_details r) = None"
    using shape print_result_ok by blast
qed

lemma poll_print_save_Returns:
  assumes "poll_urls \<lparr>timeout = 10, max_workers = 5\<rparr> w urls_dict = Inr results"
  shows "snd (poll_print_save w urls_dict) = Returns results \<and>
         checked (fst (poll_print_save w urls_dict)) = urls_dict \<and>
         written (fst (poll_print_save w urls_dict)) =
           Some (''url_poll_results_'' @ strftime_file (save_now w) @ ''.json'',
                 json_dump results)"
  using print_results_poll_urls_ok [OF assms, of w True]
  by (simp add: poll_print_save_def Let_def assms)

lemma script_file_run:
  assumes "1 < length (argv w)"
    and "read_file w (argv w ! 1) = Loaded items"
    and "build_urls_dict items [] = Inr urls_dict"
    and "poll_urls \<lparr>timeout = 10, max_workers = 5\<rparr> w urls_dict = Inr results"
  shows "snd (script w) = 0 \<and>
         checked (fst (script w)) = urls_dict \<and>
         written (fst (script w)) =
           Some (''url_poll_results_'' @ strftime_file (save_now w) @ ''.json'',
                 json_dump results)"
  using poll_print_save_Returns [OF assms(4)] assms(1-3)
  by (simp add: script_def load_urls_from_file_def Let_def)

lemma failed_count_eq:
  assumes "\<forall>r \<in> set results. \<exists>s. getitem r ''status'' = Inr s"
  shows "failed_count results =
           Inr (length (filter (\<lambda>r. getitem r ''status'' \<noteq> Inr (PStr ''up'') \<and>
                                     getitem r ''status'' \<noteq> Inr (PStr ''redirect'')) results))"
  using assms by (induction results) auto

lemma script_main_run:
  assumes "\<not> 1 < length (argv w)"
    and "poll_urls \<lparr>timeout = 10, max_workers = 5\<rparr> w
           [(''Google'', ''https://www.google.com''),
            (''Amazon'', ''https://www.amazon.com''),
            (''Github'', ''https://www.github.com'')] = Inr results"
  shows "snd (script w) =
           int (length (filter (\<lambda>r. getitem r ''status'' \<noteq> Inr (PStr ''up'') \<and>
                                      getitem r ''status'' \<noteq> Inr (PStr ''redirect'')) results))"
proof -
  have d: "build_urls_dict
             [[(''url'', ''https://www.google.com''), (''caption'', ''Google'')],
              [(''url'', ''https://www.amazon.com''), (''caption'', ''Amazon'')],
              [(''url'', ''https://www.github.com''), (''caption'', ''Github'')]] [] =
           Inr [(''Google'', ''https://www.google.com''),
                (''Amazon'', ''https://www.amazon.com''),
                (''Github'', ''https://www.github.com'')]"
    by (simp add: setitem_def)
  have "\<forall>r \<in> set results. \<exists>s. getitem r ''status'' = Inr s"
  proof
    fix r assume "r \<in> set results"
    from poll_urls_results_shape [OF assms(2) this] obtain name url s sc rt er ts where
      "r = [(''name'', PStr name), (''url'', PStr url), (''status'', PStr s),
            (''status_code'', sc), (''response_time'', rt), (''error'', er),
            (''timestamp'', PStr ts)]"
      by blast
    then show "\<exists>s. getitem r ''status'' = Inr s"
      by (simp add: getitem_def)
  qed
  from failed_count_eq [OF this] poll_print_save_Returns [OF assms(2)] assms(1) d
  show ?thesis
    by (simp add: script_def main_def Let_def)
qed

lemma isoformat_ex_datetime: "isoformat ex_datetime = ''2024-03-07T09:05:00.000120''"
  by (simp add: isoformat_def ex_datetime_def pad2_def pad4_def pad6_def digit_char_def)

lemma strftime_file_ex_datetime: "strftime_file ex_datetime = ''20240307_090500''"
  by (simp add: strftime_file_def ex_datetime_def pad2_def pad4_def digit_char_def)

lemma check_url_ex_404:
  "check_url \<lparr>timeout = 10, max_workers = 5\<rparr> (ex_obs (Response 404)) ''alpha'' ''http://a/missing''
     = ex_result_404"
proof -
  have "get_result (ex_obs (Response 404)) = Response 404"
    and "now (ex_obs (Response 404)) = ex_datetime"
    by (simp_all add: ex_obs_def)
  then show ?thesis
    by (simp add: check_url_def setitem_def Let_def ex_result_404_def
        isoformat_ex_datetime response_time_ex_obs)
qed

lemma poll_urls_singleton:
  assumes "0 < max_workers self" and "future_error w name url = None"
  shows "poll_urls self w [(name, url)] = Inr [check_url self (observe w name url) name url]"
proof -
  have "map_of (check_url self (observe w name url) name url) ''name'' = Some (PStr name)"
    using getitem_check_url_name [of self "observe w name url" name url]
    by (simp add: getitem_Inr_iff)
  then show ?thesis
    using assms
    by (simp add: poll_urls_def as_completed_def submit_def sorted_by_name_def Let_def)
qed

lemma poll_urls_ex_world_file:
  "poll_urls \<lparr>timeout = 10, max_workers = 5\<rparr> ex_world_file [(''alpha'', ''http://a/missing'')]
     = Inr [ex_result_404]"
proof -
  have "future_error ex_world_file ''alpha'' ''http://a/missing'' = None"
    by (simp add: ex_world_file_def ex_world_def)
  moreover have "observe ex_world_file ''alpha'' ''http://a/missing'' = ex_obs (Response 404)"
    by (simp add: ex_world_file_def ex_world_def)
  ultimately show ?thesis
    using poll_urls_singleton [of "\<lparr>timeout = 10, max_workers = 5\<rparr>" ex_world_file
        "''alpha''" "''http://a/missing''"]
    by (simp add: check_url_ex_404)
qed

lemma script_ex_world_file:
  "snd (script ex_world_file) = 0 \<and>
   checked (fst (script ex_world_file)) = [(''alpha'', ''http://a/missing'')] \<and>
   written (fst (script ex_world_file)) =
     Some (''url_poll_results_20240307_090500.json'', json_dump [ex_result_404])"
proof -
  have 1: "1 < length (argv ex_world_file)"
    by (simp add: ex_world_file_def)
  have 2: "read_file ex_world_file (argv ex_world_file ! 1) =
             Loaded [[(''url'', ''http://a/missing''), (''caption'', ''alpha'')]]"
    by (simp add: ex_world_file_def)
  have 3: "build_urls_dict [[(''url'', ''http://a/missing''), (''caption'', ''alpha'')]] [] =
             Inr [(''alpha'', ''http://a/missing'')]"
    by (simp add: setitem_def)
  have 4: "save_now ex_world_file = ex_datetime"
    by (simp add: ex_world_file_def ex_world_def)
  from script_file_run [OF 1 2 3 poll_urls_ex_world_file] show ?thesis
    by (simp add: 4 strftime_file_ex_datetime)
qed

text \<open>
  Claim C4, at a failing input. The claim holds on the path without argument (lemma
  \<open>script_main_run\<close>: the exit status is the number of results whose status is neither
  \<^verbatim>\<open>up\<close> nor \<^verbatim>\<open>redirect\<close>). On the path with a file argument the script never calls
  \<^verbatim>\<open>sys.exit\<close> after polling: started with a file that lists one endpoint, which answers
  404, it writes the one result, a \<^verbatim>\<open>client_error\<close>, so the count of failures is 1, and
  it ends with exit status 0.
\<close>

theorem script_file_exit_status_zero:
  "checked (fst (script ex_world_file)) = [(''alpha'', ''http://a/missing'')] \<and>
   written (fst (script ex_world_file)) =
     Some (''url_poll_results_20240307_090500.json'', json_dump [ex_result_404]) \<and>
   getitem ex_result_404 ''status'' = Inr (PStr ''client_error'') \<and>
   failed_count [ex_result_404] = Inr 1 \<and>
   snd (script ex_world_file) = 0"
proof -
  have s: "getitem ex_result_404 ''status'' = Inr (PStr ''client_error'')"
    by (simp add: ex_result_404_def getitem_def)
  then have "failed_count [ex_result_404] = Inr 1"
    by simp
  with s script_ex_world_file show ?thesis
    by blast
qed

text \<open>
  The claim C6 as stated names the field \<^verbatim>\<open>response_time_ms\<close>. The file written by the
  run above holds one object; its fields are the seven keys of the result dictionary, the
  response time under \<^verbatim>\<open>response_time\<close>, and none is called \<^verbatim>\<open>response_time_ms\<close>.
\<close>

theorem written_field_is_response_time:
  "written (fst (script ex_world_file)) =
     Some (''url_poll_results_20240307_090500.json'', JArray [json_of_dict ex_result_404]) \<and>
   json_keys (json_of_dict ex_result_404) =
     [''name'', ''url'', ''status'', ''status_code'', ''response_time'', ''error'', ''timestamp''] \<and>
   ''response_time_ms'' \<notin> set (json_keys (json_of_dict ex_result_404))"
proof -
  have "json_keys (json_of_dict ex_result_404) =
     [''name'', ''url'', ''status'', ''status_code'', ''response_time'', ''error'', ''timestamp'']"
    by (simp add: json_of_dict_def ex_result_404_def)
  then show ?thesis
    using script_ex_world_file by (simp add: json_dump_def)
qed

lemma valid_ex_datetime: "valid_datetime ex_datetime"
  by (simp add: valid_datetime_def ex_datetime_def)

theorem written_results_fields_witness:
  "(\<forall>name url. valid_datetime (now (observe ex_world_file name url)) \<and>
                valid_datetime (collect_now ex_world_file name url)) \<and>
   written (fst (script ex_world_file)) =
     Some (''url_poll_results_20240307_090500.json'', JArray [json_of_dict ex_result_404]) \<and>
   (\<exists>name url status status_code response_time error timestamp.
      json_of_dict ex_result_404 =
        JObject
          [(''name'', JString name),
           (''url'', JString url),
           (''status'', JString status),
           (''status_code'', status_code),
           (''response_time'', response_time),
           (''error'', error),
           (''timestamp'', JString timestamp)] \<and>
      (status_code = JNull \<or> (\<exists>i. status_code = JInt i)) \<and>
      (response_time = JNull \<or> (\<exists>x. response_time = JFloat x)) \<and>
      (error = JNull \<or> (\<exists>m. error = JString m)) \<and>
      is_iso8601 timestamp)"
proof -
  have h1: "\<forall>name url. valid_datetime (now (observe ex_world_file name url)) \<and>
                valid_datetime (collect_now ex_world_file name url)"
    by (simp add: ex_world_file_def ex_world_def ex_obs_def valid_ex_datetime)
  have h2: "written (fst (script ex_world_file)) =
     Some (''url_poll_results_20240307_090500.json'', JArray [json_of_dict ex_result_404])"
    using script_ex_world_file by (simp add: json_dump_def)
  from written_results_fields [OF h1 h2] obtain objects where
    o: "JArray [json_of_dict ex_result_404] = JArray objects"
    and f: "\<forall>obj \<in> set objects.
              \<exists>name url status status_code response_time error timestamp.
                obj = JObject
                        [(''name'', JString name),
                         (''url'', JString url),
                         (''status'', JString status),
                         (''status_code'', status_code),
                         (''response_time'', response_time),
                         (''error'', error),
                         (''timestamp'', JString timestamp)] \<and>
                (status_code = JNull \<or> (\<exists>i. status_code = JInt i)) \<and>
                (response_time = JNull \<or> (\<exists>x. response_time = JFloat x)) \<and>
                (error = JNull \<or> (\<exists>m. error = JString m)) \<and>
                is_iso8601 timestamp"
    by blast
  from o have "json_of_dict ex_result_404 \<in> set objects"
    by auto
  from bspec [OF f this] h1 h2 show ?thesis
    by (intro conjI)
qed

end
